theory Spec2Isabelle
  imports Complex_Main "HOL-Library.Sublist"
begin

section \<open>JavaScript values\<close>

text \<open>
  A JavaScript number is a finite value, a NaN or one of the two infinities.  A finite
  double is modelled by the rational number it denotes; comparison, \<open>Number.isFinite\<close>
  and the digit selection of \<open>toFixed\<close> are defined by the language standard on that
  exact value, so no rounding enters the model.  Negative zero compares and prints like
  zero in every operation used below and is \<open>Fin 0\<close>.
\<close>

datatype jsnum = Fin rat | NaN | PosInf | NegInf

fun isFinite :: "jsnum \<Rightarrow> bool" where
  "isFinite (Fin x) = True"
| "isFinite NaN = False"
| "isFinite PosInf = False"
| "isFinite NegInf = False"

text \<open>\<open>a <= b\<close> on numbers: every comparison with NaN is false.\<close>

fun js_le :: "jsnum \<Rightarrow> jsnum \<Rightarrow> bool" where
  "js_le NaN b = False"
| "js_le a NaN = False"
| "js_le NegInf b = True"
| "js_le a PosInf = True"
| "js_le PosInf b = False"
| "js_le a NegInf = False"
| "js_le (Fin x) (Fin y) = (x \<le> y)"

text \<open>
  The values \<open>JSON.parse\<close> produces.  An object is the list of its own enumerable
  properties in the order \<open>Object.keys\<close> lists them.
\<close>

datatype json =
    JNull
  | JBool bool
  | JNum jsnum
  | JStr string
  | JArr "json list"
  | JObj "(string \<times> json) list"

text \<open>\<open>typeof value[i] === "number"\<close> on an array: the number at index \<open>i\<close>,
  and nothing when the index is past the end or the element is not a number.\<close>

fun number_at :: "json list \<Rightarrow> nat \<Rightarrow> jsnum option" where
  "number_at vs i =
     (if i < length vs then (case vs ! i of JNum n \<Rightarrow> Some n | _ \<Rightarrow> None) else None)"

section \<open>Deep search for coordinates\<close>

type_synonym coords = "jsnum \<times> jsnum"

text \<open>
  \<open>findCoordinates\<close> of the background process.  The closure variables \<open>lat\<close> and
  \<open>lon\<close> are assigned together, so the pair of them is one optional value threaded
  through \<open>scan\<close>: \<open>None\<close> while both are \<open>null\<close>.
\<close>

fun scan :: "coords option \<Rightarrow> json \<Rightarrow> coords option"
  and scan_entries :: "coords option \<Rightarrow> json list \<Rightarrow> coords option"
  and scan_keys :: "coords option \<Rightarrow> (string \<times> json) list \<Rightarrow> coords option"
where
  "scan (Some c) value = Some c"
| "scan None (JArr vs) =
     scan_entries
       (if 4 \<le> length vs
        then (case (number_at vs 2, number_at vs 3) of
                (Some la, Some lo) \<Rightarrow> Some (la, lo)
              | _ \<Rightarrow> None)
        else None)
       vs"
| "scan None (JObj kvs) = scan_keys None kvs"
| "scan None JNull = None"
| "scan None (JBool b) = None"
| "scan None (JNum n) = None"
| "scan None (JStr s) = None"
| "scan_entries st [] = st"
| "scan_entries st (entry # rest) =
     (case scan st entry of Some c \<Rightarrow> Some c | None \<Rightarrow> scan_entries None rest)"
| "scan_keys st [] = st"
| "scan_keys st ((key, v) # rest) =
     (case scan st v of Some c \<Rightarrow> Some c | None \<Rightarrow> scan_keys None rest)"

definition findCoordinates :: "json \<Rightarrow> coords option" where
  "findCoordinates node = scan None node"

text \<open>
  \<open>findCoordinatesDeep\<close> of the content script: the same search, with the range
  test on the candidate pair and an immediate \<open>return\<close> on a match.
\<close>

definition validCoordinate :: "jsnum \<Rightarrow> jsnum \<Rightarrow> bool" where
  "validCoordinate possibleLat possibleLon =
     (js_le (Fin (- 90)) possibleLat \<and> js_le possibleLat (Fin 90) \<and>
      js_le (Fin (- 180)) possibleLon \<and> js_le possibleLon (Fin 180))"

fun scanDeep :: "coords option \<Rightarrow> json \<Rightarrow> coords option"
  and scanDeep_entries :: "coords option \<Rightarrow> json list \<Rightarrow> coords option"
  and scanDeep_keys :: "coords option \<Rightarrow> (string \<times> json) list \<Rightarrow> coords option"
where
  "scanDeep (Some c) value = Some c"
| "scanDeep None (JArr vs) =
     (case (if 4 \<le> length vs
            then (case (number_at vs 2, number_at vs 3) of
                    (Some la, Some lo) \<Rightarrow>
                      if validCoordinate la lo then Some (la, lo) else None
                  | _ \<Rightarrow> None)
            else None) of
        Some c \<Rightarrow> Some c
      | None \<Rightarrow> scanDeep_entries None vs)"
| "scanDeep None (JObj kvs) = scanDeep_keys None kvs"
| "scanDeep None JNull = None"
| "scanDeep None (JBool b) = None"
| "scanDeep None (JNum n) = None"
| "scanDeep None (JStr s) = None"
| "scanDeep_entries st [] = st"
| "scanDeep_entries st (entry # rest) =
     (case scanDeep st entry of Some c \<Rightarrow> Some c | None \<Rightarrow> scanDeep_entries None rest)"
| "scanDeep_keys st [] = st"
| "scanDeep_keys st ((key, v) # rest) =
     (case scanDeep st v of Some c \<Rightarrow> Some c | None \<Rightarrow> scanDeep_keys None rest)"

definition findCoordinatesDeep :: "json \<Rightarrow> coords option" where
  "findCoordinatesDeep node = scanDeep None node"

section \<open>Strings\<close>

text \<open>
  A string is the list of its code units, each of them below 256 here.  The helpers are
  the methods of \<open>String.prototype\<close> the program calls, on non-negative indices.
\<close>

fun indexOf :: "string \<Rightarrow> char \<Rightarrow> nat option" where
  "indexOf [] c = None"
| "indexOf (x # xs) c = (if x = c then Some 0 else map_option Suc (indexOf xs c))"

definition lastIndexOf :: "string \<Rightarrow> char \<Rightarrow> nat option" where
  "lastIndexOf s c =
     (case indexOf (rev s) c of None \<Rightarrow> None | Some i \<Rightarrow> Some (length s - 1 - i))"

definition slice :: "string \<Rightarrow> nat \<Rightarrow> nat \<Rightarrow> string" where
  "slice s start stop = take (stop - start) (drop start s)"

definition startsWith :: "string \<Rightarrow> string \<Rightarrow> bool" where
  "startsWith s p = prefix p s"

fun includes_str :: "string \<Rightarrow> string \<Rightarrow> bool" where
  "includes_str [] p = (p = [])"
| "includes_str (x # xs) p = (prefix p (x # xs) \<or> includes_str xs p)"

definition isWhiteSpace :: "char \<Rightarrow> bool" where
  "isWhiteSpace c = ((of_char c :: nat) \<in> {9, 10, 11, 12, 13, 32, 160})"

definition trim :: "string \<Rightarrow> string" where
  "trim s = rev (dropWhile isWhiteSpace (rev (dropWhile isWhiteSpace s)))"

definition lowerChar :: "char \<Rightarrow> char" where
  "lowerChar c =
     (let n = (of_char c :: nat)
      in if (65 \<le> n \<and> n \<le> 90) \<or> (192 \<le> n \<and> n \<le> 222 \<and> n \<noteq> 215)
         then char_of (n + 32) else c)"

definition toLowerCase :: "string \<Rightarrow> string" where
  "toLowerCase s = map lowerChar s"

subsection \<open>Printing numbers\<close>

definition digitChar :: "nat \<Rightarrow> char" where
  "digitChar d = char_of (48 + d)"

function decimalDigits :: "nat \<Rightarrow> string" where
  "decimalDigits n =
     (if n < 10 then [digitChar n] else decimalDigits (n div 10) @ [digitChar (n mod 10)])"
  by pat_completeness auto
termination
  by (relation "measure id") auto

declare decimalDigits.simps [simp del]

text \<open>
  \<open>Number.prototype.toFixed(5)\<close>.  The standard picks the integer \<open>n\<close> with
  \<open>n / 10^5\<close> closest to the magnitude, the larger one on a tie, pads its digits to
  six and puts the point before the last five.  From \<open>10^21\<close> on it falls back on
  the shortest round-trip printing of the double, which is a function of the run-time
  system and is the parameter \<open>numberToString\<close> here.
\<close>

definition toFixed5 :: "(rat \<Rightarrow> string) \<Rightarrow> jsnum \<Rightarrow> string" where
  "toFixed5 numberToString v =
     (case v of
        NaN \<Rightarrow> ''NaN''
      | PosInf \<Rightarrow> ''Infinity''
      | NegInf \<Rightarrow> ''-Infinity''
      | Fin x \<Rightarrow>
          (let s = (if x < 0 then ''-'' else []);
               a = \<bar>x\<bar>
           in if 10 ^ 21 \<le> a then s @ numberToString a
              else
                (let n = nat \<lfloor>a * 10 ^ 5 + 1 / 2\<rfloor>;
                     m = decimalDigits n;
                     m' = (if length m \<le> 5 then replicate (6 - length m) (CHR ''0'') @ m else m);
                     k = length m'
                 in s @ take (k - 5) m' @ ''.'' @ drop (k - 5) m')))"

section \<open>Reading JSON text\<close>

text \<open>
  \<open>JSON.parse\<close> belongs to the run-time system.  The functions of the program that call
  it take it as the parameter \<open>parse\<close>, with \<open>None\<close> for a thrown \<open>SyntaxError\<close>,
  so what is proved of them holds for every parser.  \<open>JSON_parse\<close> below is a reader of
  the JSON grammar used to run them on concrete text: a number literal denotes its decimal
  value (an infinity beyond the double range), a \<open>\\u\<close> escape is read when it is
  below 256, and the recursion is bounded by the length of the text.
\<close>

definition isJsonSpace :: "char \<Rightarrow> bool" where
  "isJsonSpace c = ((of_char c :: nat) \<in> {9, 10, 13, 32})"

definition skipSpace :: "string \<Rightarrow> string" where
  "skipSpace s = dropWhile isJsonSpace s"

definition isDigit :: "char \<Rightarrow> bool" where
  "isDigit c = (48 \<le> (of_char c :: nat) \<and> (of_char c :: nat) \<le> 57)"

definition digitsValue :: "string \<Rightarrow> nat" where
  "digitsValue ds = foldl (\<lambda>n c. 10 * n + ((of_char c :: nat) - 48)) 0 ds"

definition hexValue :: "char \<Rightarrow> nat option" where
  "hexValue c =
     (let n = (of_char c :: nat)
      in if 48 \<le> n \<and> n \<le> 57 then Some (n - 48)
         else if 65 \<le> n \<and> n \<le> 70 then Some (n - 55)
         else if 97 \<le> n \<and> n \<le> 102 then Some (n - 87)
         else None)"

text \<open>\<open>2^1024 - 2^970\<close>, from which on a decimal literal rounds to an infinity.\<close>

definition doubleLimit :: rat where
  "doubleLimit =
     179769313486231580793728971405303415079934132710037826936173778980444968292764750946649017977587207096330286416692887910946555547851940402630657488671505820681908902000708383676273854845817711531764475730270069855571366959622842914819860834936475292719074168444365510704342711559699508093042880177904174497792"

definition numberOfRat :: "rat \<Rightarrow> jsnum" where
  "numberOfRat x =
     (if doubleLimit \<le> x then PosInf
      else if x \<le> - doubleLimit then NegInf
      else Fin x)"

definition readExponent :: "string \<Rightarrow> (int \<times> string) option" where
  "readExponent s =
     (case s of
        [] \<Rightarrow> Some (0, s)
      | c # t \<Rightarrow>
          if c = CHR ''e'' \<or> c = CHR ''E''
          then (let (neg, u) =
                      (case t of
                         [] \<Rightarrow> (False, t)
                       | d # t' \<Rightarrow>
                           if d = CHR ''-'' then (True, t')
                           else if d = CHR ''+'' then (False, t')
                           else (False, t));
                    ds = takeWhile isDigit u
                in if ds = [] then None
                   else Some ((if neg then - int (digitsValue ds) else int (digitsValue ds)),
                              dropWhile isDigit u))
          else Some (0, s))"

definition readNumber :: "string \<Rightarrow> (jsnum \<times> string) option" where
  "readNumber s =
     (let (neg, s1) = (case s of [] \<Rightarrow> (False, s)
                       | c # t \<Rightarrow> if c = CHR ''-'' then (True, t) else (False, s));
          ip = takeWhile isDigit s1;
          s2 = dropWhile isDigit s1
      in if ip = [] \<or> (1 < length ip \<and> hd ip = CHR ''0'') then None
         else
           (let (fp, s3) =
                  (case s2 of
                     [] \<Rightarrow> (Some [], s2)
                   | c # t \<Rightarrow>
                       if c = CHR ''.''
                       then (if takeWhile isDigit t = [] then (None, t)
                             else (Some (takeWhile isDigit t), dropWhile isDigit t))
                       else (Some [], s2))
            in case fp of
                 None \<Rightarrow> None
               | Some fd \<Rightarrow>
                   (case readExponent s3 of
                      None \<Rightarrow> None
                    | Some (e, s4) \<Rightarrow>
                        (let mant = of_nat (digitsValue (ip @ fd)) / 10 ^ length fd;
                             mag = (if 0 \<le> e then mant * 10 ^ nat e else mant / 10 ^ nat (- e))
                         in Some (numberOfRat (if neg then - mag else mag), s4)))))"

fun readString :: "string \<Rightarrow> (string \<times> string) option" where
  "readString [] = None"
| "readString (c # t) =
     (if c = CHR ''\"'' then Some ([], t)
      else if (of_char c :: nat) < 32 then None
      else if c = CHR 0x5C then
        (case t of
           [] \<Rightarrow> None
         | e # u \<Rightarrow>
             if e = CHR ''u'' then
               (case u of
                  h1 # h2 # h3 # h4 # v \<Rightarrow>
                    (case (hexValue h1, hexValue h2, hexValue h3, hexValue h4) of
                       (Some a, Some b, Some x, Some y) \<Rightarrow>
                         if a = 0 \<and> b = 0
                         then map_option (\<lambda>(w, r). (char_of (16 * x + y) # w, r)) (readString v)
                         else None
                     | _ \<Rightarrow> None)
                | _ \<Rightarrow> None)
             else
               (case (if e = CHR ''\"'' \<or> e = CHR 0x5C \<or> e = CHR ''/'' then Some e
                      else if e = CHR ''b'' then Some (CHR 0x08)
                      else if e = CHR ''f'' then Some (CHR 0x0C)
                      else if e = CHR ''n'' then Some (CHR 0x0A)
                      else if e = CHR ''r'' then Some (CHR 0x0D)
                      else if e = CHR ''t'' then Some (CHR 0x09)
                      else None) of
                  None \<Rightarrow> None
                | Some d \<Rightarrow> map_option (\<lambda>(w, r). (d # w, r)) (readString u)))
      else map_option (\<lambda>(w, r). (c # w, r)) (readString t))"

text \<open>
  The properties of a parsed object in the order of \<open>Object.keys\<close>: a repeated key
  keeps its first position and its last value.  (Keys that are array indices, which
  \<open>Object.keys\<close> lists first, are kept in their place here.)
\<close>

fun objectOfMembers :: "(string \<times> json) list \<Rightarrow> (string \<times> json) list" where
  "objectOfMembers [] = []"
| "objectOfMembers ((k, v) # rest) =
     (k, (case map_of (rev rest) k of None \<Rightarrow> v | Some w \<Rightarrow> w))
       # objectOfMembers (filter (\<lambda>(k', _). k' \<noteq> k) rest)"

fun readValue :: "nat \<Rightarrow> string \<Rightarrow> (json \<times> string) option"
  and readElements :: "nat \<Rightarrow> string \<Rightarrow> (json list \<times> string) option"
  and readMembers :: "nat \<Rightarrow> string \<Rightarrow> ((string \<times> json) list \<times> string) option"
where
  "readValue 0 s = None"
| "readValue (Suc n) s =
     (case s of
        [] \<Rightarrow> None
      | c # t \<Rightarrow>
          if c = CHR ''['' then
            (case skipSpace t of
               [] \<Rightarrow> None
             | d # r \<Rightarrow>
                 if d = CHR '']'' then Some (JArr [], r)
                 else map_option (\<lambda>(vs, r'). (JArr vs, r')) (readElements n (d # r)))
          else if c = CHR ''{'' then
            (case skipSpace t of
               [] \<Rightarrow> None
             | d # r \<Rightarrow>
                 if d = CHR ''}'' then Some (JObj [], r)
                 else map_option (\<lambda>(kvs, r'). (JObj (objectOfMembers kvs), r'))
                        (readMembers n (d # r)))
          else if c = CHR ''\"'' then map_option (\<lambda>(w, r). (JStr w, r)) (readString t)
          else if prefix ''null'' s then Some (JNull, drop 4 s)
          else if prefix ''true'' s then Some (JBool True, drop 4 s)
          else if prefix ''false'' s then Some (JBool False, drop 5 s)
          else map_option (\<lambda>(x, r). (JNum x, r)) (readNumber s))"
| "readElements 0 s = None"
| "readElements (Suc n) s =
     (case readValue n s of
        None \<Rightarrow> None
      | Some (v, r) \<Rightarrow>
          (case skipSpace r of
             [] \<Rightarrow> None
           | d # r' \<Rightarrow>
               if d = CHR '','' then
                 map_option (\<lambda>(vs, r''). (v # vs, r'')) (readElements n (skipSpace r'))
               else if d = CHR '']'' then Some ([v], r')
               else None))"
| "readMembers 0 s = None"
| "readMembers (Suc n) s =
     (case s of
        [] \<Rightarrow> None
      | q # t \<Rightarrow>
          if q \<noteq> CHR ''\"'' then None
          else
            (case readString t of
               None \<Rightarrow> None
             | Some (k, r0) \<Rightarrow>
                 (case skipSpace r0 of
                    [] \<Rightarrow> None
                  | col # r1 \<Rightarrow>
                      if col \<noteq> CHR '':'' then None
                      else
                        (case readValue n (skipSpace r1) of
                           None \<Rightarrow> None
                         | Some (v, r) \<Rightarrow>
                             (case skipSpace r of
                                [] \<Rightarrow> None
                              | d # r' \<Rightarrow>
                                  if d = CHR '','' then
                                    map_option (\<lambda>(kvs, r''). ((k, v) # kvs, r''))
                                      (readMembers n (skipSpace r'))
                                  else if d = CHR ''}'' then Some ([(k, v)], r')
                                  else None)))))"

definition JSON_parse :: "string \<Rightarrow> json option" where
  "JSON_parse text =
     (case readValue (Suc (length text)) (skipSpace text) of
        None \<Rightarrow> None
      | Some (v, r) \<Rightarrow> if skipSpace r = [] then Some v else None)"

section \<open>Parsing a captured response body\<close>

definition CALLBACK_PREFIX :: string where
  "CALLBACK_PREFIX = ''/**/_callbacks____''"

text \<open>
  \<open>parseBody\<close> of the page-context hook (geo-bridge.js), on a string body.  The
  result is the parsed value, and \<open>JNull\<close> where the source returns \<open>null\<close>.
\<close>

definition parseBody :: "(string \<Rightarrow> json option) \<Rightarrow> string \<Rightarrow> json" where
  "parseBody parse body =
     (if body = [] then JNull
      else if startsWith body CALLBACK_PREFIX then
        (case (indexOf body (CHR ''(''), lastIndexOf body (CHR '')'')) of
           (Some start, Some end) \<Rightarrow>
             (case parse (slice body (start + 1) end) of
                Some v \<Rightarrow> v
              | None \<Rightarrow> JNull)
         | _ \<Rightarrow> JNull)
      else JNull)"

text \<open>\<open>stripJSONPWrapper\<close> and \<open>parseGeoPayload\<close> of the background process.\<close>

definition stripJSONPWrapper :: "string \<Rightarrow> string" where
  "stripJSONPWrapper text =
     (case (indexOf text (CHR ''(''), lastIndexOf text (CHR '')'')) of
        (Some first, Some lst) \<Rightarrow> if first < lst then slice text (first + 1) lst else text
      | _ \<Rightarrow> text)"

definition parseGeoPayload :: "(string \<Rightarrow> json option) \<Rightarrow> string \<Rightarrow> json" where
  "parseGeoPayload parse text =
     (if text = [] then JNull
      else
        (let trimmed = stripJSONPWrapper (trim text)
         in case parse trimmed of
              Some v \<Rightarrow> v
            | None \<Rightarrow>
                (case (indexOf trimmed (CHR ''[''), lastIndexOf trimmed (CHR '']'')) of
                   (Some firstBracket, Some lastBracket) \<Rightarrow>
                     if firstBracket < lastBracket
                     then (case parse (slice trimmed firstBracket (lastBracket + 1)) of
                             Some v \<Rightarrow> v
                           | None \<Rightarrow> JNull)
                     else JNull
                 | _ \<Rightarrow> JNull)))"

section \<open>Fixed-index extraction\<close>

text \<open>
  \<open>value?.[i]\<close>: \<open>None\<close> is \<open>undefined\<close>.  An array yields its element, a string
  its code unit, an object the property named by the index, everything else nothing.
\<close>

fun js_index :: "json option \<Rightarrow> nat \<Rightarrow> json option" where
  "js_index None i = None"
| "js_index (Some JNull) i = None"
| "js_index (Some (JBool b)) i = None"
| "js_index (Some (JNum n)) i = None"
| "js_index (Some (JStr s)) i = (if i < length s then Some (JStr [s ! i]) else None)"
| "js_index (Some (JArr vs)) i = (if i < length vs then Some (vs ! i) else None)"
| "js_index (Some (JObj kvs)) i = map_of kvs (decimalDigits i)"

fun truthy :: "json option \<Rightarrow> bool" where
  "truthy None = False"
| "truthy (Some JNull) = False"
| "truthy (Some (JBool b)) = b"
| "truthy (Some (JNum n)) = (case n of Fin x \<Rightarrow> x \<noteq> 0 | NaN \<Rightarrow> False | PosInf \<Rightarrow> True | NegInf \<Rightarrow> True)"
| "truthy (Some (JStr s)) = (s \<noteq> [])"
| "truthy (Some (JArr vs)) = True"
| "truthy (Some (JObj kvs)) = True"

text \<open>\<open>typeof v === "number"\<close>, with the number.\<close>

fun asNumber :: "json option \<Rightarrow> jsnum option" where
  "asNumber (Some (JNum n)) = Some n"
| "asNumber v = None"

text \<open>
  Strategy 1 of \<open>extractMetadataFromArray\<close>: the values of \<open>lat\<close> and \<open>lon\<close> after the
  block that reads \<open>root = data[1][0]\<close> and \<open>primaryLocation = root[5][0][1][0]\<close>.
  Both start as \<open>null\<close>.
\<close>

definition standardPath :: "json \<Rightarrow> json option \<times> json option" where
  "standardPath data =
     (let root = js_index (js_index (Some data) 1) 0
      in if truthy root then
           (let locationSets = js_index (js_index (js_index root 5) 0) 1;
                primaryLocation = js_index locationSets 0
            in if truthy primaryLocation
               then (js_index primaryLocation 2, js_index primaryLocation 3)
               else (Some JNull, Some JNull))
         else (Some JNull, Some JNull))"

text \<open>
  \<open>extractMetadataFromArray\<close>, projected on the \<open>lat\<close> and \<open>lon\<close> of its result
  (\<open>None\<close> for \<open>null\<close>).  The address, country and photo id are computed by code that
  neither reads nor assigns \<open>lat\<close> and \<open>lon\<close> and that raises no exception.
\<close>

definition extractMetadataFromArray :: "json \<Rightarrow> coords option" where
  "extractMetadataFromArray data =
     (let (lat, lon) = standardPath data;
          (lat2, lon2) =
            (case (asNumber lat, asNumber lon) of
               (Some a, Some b) \<Rightarrow> (lat, lon)
             | _ \<Rightarrow>
                 (case findCoordinatesDeep data of
                    Some (a, b) \<Rightarrow> (Some (JNum a), Some (JNum b))
                  | None \<Rightarrow> (lat, lon)))
      in case (asNumber lat2, asNumber lon2) of
           (Some a, Some b) \<Rightarrow> Some (a, b)
         | _ \<Rightarrow> None)"

text \<open>
  \<open>parseGeoPhotoResponse\<close> of the simple content script (content-script.js): the
  coordinates of the metadata it stores in \<open>latestStreetViewMetadata\<close>, and \<open>None\<close>
  when it stores nothing.
\<close>

definition parseGeoPhotoResponse_simple ::
  "(string \<Rightarrow> json option) \<Rightarrow> string \<Rightarrow> coords option" where
  "parseGeoPhotoResponse_simple parse body =
     (if body = [] then None
      else if startsWith body CALLBACK_PREFIX then
        (case (indexOf body (CHR ''(''), lastIndexOf body (CHR '')'')) of
           (Some start, Some end) \<Rightarrow>
             (case parse (slice body (start + 1) end) of
                Some data \<Rightarrow> extractMetadataFromArray data
              | None \<Rightarrow> None)
         | _ \<Rightarrow> None)
      else None)"

text \<open>
  \<open>body.match(/\[[\s\S]*\]/)\<close>: the leftmost match starts at the first \<open>[\<close> and,
  the star being greedy over every character, ends at the last \<open>]\<close> behind it; there
  is no match when no \<open>]\<close> follows the first \<open>[\<close>.
\<close>

definition matchArrayLiteral :: "string \<Rightarrow> string option" where
  "matchArrayLiteral body =
     (case (indexOf body (CHR ''[''), lastIndexOf body (CHR '']'')) of
        (Some first, Some lst) \<Rightarrow> if first < lst then Some (slice body first (lst + 1)) else None
      | _ \<Rightarrow> None)"

text \<open>
  \<open>parseGeoPhotoResponse\<close> of the supervised content script, with the same result type.
  \<open>data\<close> starts as \<open>null\<close>; the callback wrapper is tried first, then the raw body,
  then the bracket span of the body; a parse that throws leaves \<open>data\<close> as it was.
\<close>

definition parseGeoPhotoResponse :: "(string \<Rightarrow> json option) \<Rightarrow> string \<Rightarrow> coords option" where
  "parseGeoPhotoResponse parse body =
     (if body = [] then None
      else
        (let data1 =
               (if startsWith body CALLBACK_PREFIX then
                  (case (indexOf body (CHR ''(''), lastIndexOf body (CHR '')'')) of
                     (Some start, Some end) \<Rightarrow>
                       (case parse (slice body (start + 1) end) of
                          Some v \<Rightarrow> v
                        | None \<Rightarrow> JNull)
                   | _ \<Rightarrow> JNull)
                else JNull);
             data2 =
               (if \<not> truthy (Some data1) then
                  (case parse body of
                     Some v \<Rightarrow> v
                   | None \<Rightarrow>
                       (case matchArrayLiteral body of
                          Some jsonMatch \<Rightarrow>
                            (case parse jsonMatch of
                               Some v \<Rightarrow> v
                             | None \<Rightarrow> data1)
                        | None \<Rightarrow> data1))
                else data1)
         in if \<not> truthy (Some data2) then None
            else extractMetadataFromArray data2))"

text \<open>The response body of C4, with the brackets of the array balanced.\<close>

definition syntheticBody :: string where
  "syntheticBody =
     ''/**/_callbacks____foo('' @
     ''[null,[[null,null,null,null,null,[[null,[[null,[null,null,48.8566,2.3522]]]]]]]]'' @
     '')''"

definition syntheticData :: json where
  "syntheticData =
     JArr [JNull,
       JArr [JArr [JNull, JNull, JNull, JNull, JNull,
         JArr [JArr [JNull,
           JArr [JArr [JNull,
             JArr [JNull, JNull, JNum (Fin (488566 / 10000)), JNum (Fin (23522 / 10000))]]]]]]]]"

section \<open>The background process\<close>

text \<open>
  A coordinate observation, as the debugger listener builds it for \<open>emitGeoMetadata\<close>.
  A tab id is a natural number; 0 is the id JavaScript treats as false.
\<close>

record metadata =
  lat :: jsnum
  lon :: jsnum
  place :: "string option"
  language :: "string option"
  source :: string
  url :: string
  timestamp :: nat
  hookType :: string

text \<open>An entry of \<open>tabMetadataCache\<close>: the observation with \<open>tabId\<close> and \<open>capturedAt\<close>.\<close>

record cacheEntry =
  observation :: metadata
  tabId :: nat
  capturedAt :: nat

datatype debuggerCall = Attach nat | NetworkEnable nat | Detach nat

text \<open>
  The module state of background.js, with the two effects a claim speaks of: the
  \<open>GEO_METADATA\<close> messages sent to tabs and the calls made to \<open>chrome.debugger\<close>, in
  order.  \<open>geovizLastMetadata\<close> is the key \<open>persistGeoMetadata\<close> writes.
\<close>

record background =
  activeCaptureTabs :: "nat set"
  tabCoordinateSignatures :: "nat \<rightharpoonup> string"
  tabMetadataCache :: "nat \<rightharpoonup> cacheEntry"
  geovizLastMetadata :: "metadata option"
  tabMessages :: "(nat \<times> metadata) list"
  debuggerCalls :: "debuggerCall list"

definition initialBackground :: background where
  "initialBackground =
     \<lparr>activeCaptureTabs = {}, tabCoordinateSignatures = Map.empty,
      tabMetadataCache = Map.empty, geovizLastMetadata = None,
      tabMessages = [], debuggerCalls = []\<rparr>"

text \<open>The signature \<open>emitGeoMetadata\<close> computes: latitude and longitude, no source.\<close>

definition tabSignature :: "(rat \<Rightarrow> string) \<Rightarrow> metadata \<Rightarrow> string" where
  "tabSignature numberToString m =
     toFixed5 numberToString (lat m) @ '':'' @ toFixed5 numberToString (lon m)"

definition sendGeoMetadataToTab :: "nat \<Rightarrow> metadata \<Rightarrow> background \<Rightarrow> background" where
  "sendGeoMetadataToTab tab payload st =
     (if tab = 0 then st else st\<lparr>tabMessages := tabMessages st @ [(tab, payload)]\<rparr>)"

definition persistGeoMetadata :: "metadata \<Rightarrow> background \<Rightarrow> background" where
  "persistGeoMetadata payload st = st\<lparr>geovizLastMetadata := Some payload\<rparr>"

text \<open>\<open>emitGeoMetadata\<close> of the multi-tab background process; \<open>now\<close> is \<open>Date.now()\<close>.\<close>

definition emitGeoMetadata ::
  "(rat \<Rightarrow> string) \<Rightarrow> nat \<Rightarrow> nat \<Rightarrow> metadata \<Rightarrow> background \<Rightarrow> background" where
  "emitGeoMetadata numberToString now tab m st =
     (let signature = tabSignature numberToString m;
          lastSig = tabCoordinateSignatures st tab
      in if signature \<noteq> [] \<and> Some signature = lastSig then st
         else
           sendGeoMetadataToTab tab m
             (persistGeoMetadata m
                (st\<lparr>tabCoordinateSignatures := (tabCoordinateSignatures st)(tab \<mapsto> signature),
                    tabMetadataCache := (tabMetadataCache st)
                      (tab \<mapsto> \<lparr>observation = m, tabId = tab, capturedAt = now\<rparr>)\<rparr>)))"

text \<open>
  \<open>startGeoCapture\<close>.  The browser's answers are inputs: \<open>attachError\<close> and
  \<open>enableError\<close> are the message of \<open>chrome.runtime.lastError\<close> in the callback of
  \<open>chrome.debugger.attach\<close> and of the \<open>Network.enable\<close> command, \<open>None\<close> when it is
  unset.  The result is how the promise settles, with the state left behind.
\<close>

datatype 'a settled = Resolved 'a | Rejected string

definition noTabMessage :: string where
  "noTabMessage = ''Kein Tab f'' @ [CHR 0xFC] @ ''r GeoCapture verf'' @ [CHR 0xFC] @ ''gbar.''"

definition startGeoCapture ::
  "nat \<Rightarrow> string option \<Rightarrow> string option \<Rightarrow> background \<Rightarrow> unit settled \<times> background" where
  "startGeoCapture tab attachError enableError st =
     (if tab = 0 then (Rejected noTabMessage, st)
      else if tab \<in> activeCaptureTabs st then (Resolved (), st)
      else
        (let st1 = st\<lparr>debuggerCalls := debuggerCalls st @ [Attach tab]\<rparr>
         in case attachError of
              Some message \<Rightarrow>
                if includes_str message ''Another debugger''
                then (Resolved (), st1\<lparr>activeCaptureTabs := insert tab (activeCaptureTabs st1)\<rparr>)
                else (Rejected message, st1)
            | None \<Rightarrow>
                (let st2 = st1\<lparr>debuggerCalls := debuggerCalls st1 @ [NetworkEnable tab]\<rparr>
                 in case enableError of
                      Some message \<Rightarrow> (Rejected message, st2)
                    | None \<Rightarrow>
                        (Resolved (),
                         st2\<lparr>activeCaptureTabs := insert tab (activeCaptureTabs st2),
                             tabCoordinateSignatures := (tabCoordinateSignatures st2)(tab := None)\<rparr>))))"

section \<open>The page-context channel\<close>

text \<open>
  \<open>notifyCoordsUpdate\<close> of the overlay script: its state is \<open>lastSentCoordsSignature\<close>
  and the \<open>SEND_COORDS\<close> messages it has sent, each with its \<open>lat\<close>, \<open>lon\<close> and
  \<open>source\<close>.  \<open>runtime\<close> tells whether \<open>chrome.runtime.sendMessage\<close> exists.
\<close>

record overlay =
  lastSentCoordsSignature :: "string option"
  sentCoords :: "(jsnum \<times> jsnum \<times> string) list"

definition coordsSignature :: "(rat \<Rightarrow> string) \<Rightarrow> jsnum \<Rightarrow> jsnum \<Rightarrow> string \<Rightarrow> string" where
  "coordsSignature numberToString latValue lonValue context =
     toFixed5 numberToString latValue @ '':'' @ toFixed5 numberToString lonValue @ '':'' @ context"

definition notifyCoordsUpdate ::
  "(rat \<Rightarrow> string) \<Rightarrow> bool \<Rightarrow> jsnum \<Rightarrow> jsnum \<Rightarrow> string \<Rightarrow> overlay \<Rightarrow> overlay" where
  "notifyCoordsUpdate numberToString runtime latValue lonValue context st =
     (if runtime then
        (if isFinite latValue \<and> isFinite lonValue then
           (let signature = coordsSignature numberToString latValue lonValue context
            in if Some signature = lastSentCoordsSignature st then st
               else st\<lparr>lastSentCoordsSignature := Some signature,
                       sentCoords := sentCoords st @ [(latValue, lonValue, context)]\<rparr>)
         else st)
      else st)"

section \<open>The content script\<close>

definition ROUND_LIMIT :: nat where
  "ROUND_LIMIT = 5"

definition STATUS_ERROR :: string where
  "STATUS_ERROR = ''Fehler: ''"

text \<open>
  \<open>latestStreetViewMetadata\<close>, and the two fields of a prediction that the automation
  reads.  \<open>None\<close> in a field is \<open>null\<close> or \<open>undefined\<close>.  The address is the value
  the script was given for it, a string in every message the background process sends.
  The backend sends the \<open>lat\<close> and \<open>lon\<close> of a prediction as numbers or leaves them out.
\<close>

record streetViewMetadata =
  sv_lat :: "jsnum option"
  sv_lon :: "jsnum option"
  address :: "json option"
  country :: "string option"
  country_code :: "string option"
  photoId :: "string option"

record prediction =
  pred_lat :: "jsnum option"
  pred_lon :: "jsnum option"

text \<open>What the script does to the page and to the extension, in order.\<close>

datatype action =
    CaptureImage
  | SendMessage string
  | PlaceGuess jsnum jsnum
  | SubmitGuess
  | Click string

text \<open>The module variables of the content script that the modelled functions use.\<close>

record content =
  currentRound :: nat
  currentSessionId :: string
  latestStreetViewMetadata :: "streetViewMetadata option"
  lastCoordinateTime :: nat
  screenshotApiAvailable :: bool
  lastPreviewDataUrl :: "string option"
  lastGuessCoordinates :: "coords option"
  currentPrediction :: "prediction option"
  statusText :: string
  actions :: "action list"

definition initialContent :: content where
  "initialContent =
     \<lparr>currentRound = 1, currentSessionId = [], latestStreetViewMetadata = None,
      lastCoordinateTime = 0, screenshotApiAvailable = True, lastPreviewDataUrl = None,
      lastGuessCoordinates = None, currentPrediction = None, statusText = [],
      actions = []\<rparr>"

subsection \<open>Receiving an observation from the inspector\<close>

text \<open>
  \<open>payload?.name\<close> for the names the handler reads (\<open>lat\<close>, \<open>lon\<close>, \<open>place\<close>):
  an object yields its property, every other value \<open>undefined\<close>.
\<close>

fun js_prop :: "json \<Rightarrow> string \<Rightarrow> json option" where
  "js_prop (JObj kvs) name = map_of kvs name"
| "js_prop v name = None"

text \<open>
  \<open>Number(v)\<close>: \<open>undefined\<close> gives \<open>NaN\<close>, \<open>null\<close> gives 0, a boolean 0 or 1, a
  number itself.  A string, an array or an object is converted by the run-time system
  (\<open>ToPrimitive\<close> and \<open>StringToNumber\<close>), which is the parameter \<open>convert\<close>.
\<close>

fun Number :: "(json \<Rightarrow> jsnum) \<Rightarrow> json option \<Rightarrow> jsnum" where
  "Number convert None = NaN"
| "Number convert (Some JNull) = Fin 0"
| "Number convert (Some (JBool b)) = (if b then Fin 1 else Fin 0)"
| "Number convert (Some (JNum n)) = n"
| "Number convert (Some (JStr s)) = convert (JStr s)"
| "Number convert (Some (JArr vs)) = convert (JArr vs)"
| "Number convert (Some (JObj kvs)) = convert (JObj kvs)"

definition nonEmpty :: "string option \<Rightarrow> string option" where
  "nonEmpty s = (case s of None \<Rightarrow> None | Some t \<Rightarrow> if t = [] then None else Some t)"

text \<open>
  The \<open>GEO_METADATA\<close> branch of the listener that \<open>listenForDebuggerMetadata\<close> installs,
  on the payload of the message.  \<open>inferCountryFromAddress\<close> is the country table, a
  parameter; \<open>now\<close> is \<open>Date.now()\<close>.  A place that is neither false nor a string
  makes \<open>inferCountryFromAddress\<close> throw, after \<open>latestStreetViewMetadata\<close> has been
  assigned, which leaves the state as with no country inferred.
\<close>

definition listenForDebuggerMetadata ::
  "(json \<Rightarrow> jsnum) \<Rightarrow> (string \<Rightarrow> string option) \<Rightarrow> nat \<Rightarrow> json \<Rightarrow> content \<Rightarrow> content" where
  "listenForDebuggerMetadata convert inferCountryFromAddress now payload st =
     (if truthy (Some payload) then
        (let latValue = Number convert (js_prop payload ''lat'');
             lonValue = Number convert (js_prop payload ''lon'')
         in if isFinite latValue \<and> isFinite lonValue then
              (let place = js_prop payload ''place'';
                   inferredCountry =
                     (if truthy place then
                        (case place of
                           Some (JStr p) \<Rightarrow> nonEmpty (inferCountryFromAddress p)
                         | _ \<Rightarrow> None)
                      else None)
               in st\<lparr>lastCoordinateTime := now,
                      latestStreetViewMetadata :=
                        Some \<lparr>sv_lat = Some latValue, sv_lon = Some lonValue,
                              address = (if truthy place then place else None),
                              country = inferredCountry, country_code = inferredCountry,
                              photoId = None\<rparr>\<rparr>)
            else st)
      else st)"

text \<open>
  The payload as the content script receives it.  \<open>sendGeoMetadataToTab\<close> passes the
  metadata object to \<open>chrome.tabs.sendMessage\<close>, which delivers its JSON serialisation:
  a number that is not finite arrives as \<open>null\<close>.
\<close>

definition jsonOfNumber :: "jsnum \<Rightarrow> json" where
  "jsonOfNumber n = (if isFinite n then JNum n else JNull)"

definition jsonOfString :: "string option \<Rightarrow> json" where
  "jsonOfString s = (case s of None \<Rightarrow> JNull | Some t \<Rightarrow> JStr t)"

definition geoMetadataPayload :: "nat \<Rightarrow> metadata \<Rightarrow> json" where
  "geoMetadataPayload tab m =
     JObj [(''lat'', jsonOfNumber (lat m)), (''lon'', jsonOfNumber (lon m)),
           (''place'', jsonOfString (place m)), (''language'', jsonOfString (language m)),
           (''source'', JStr (source m)), (''url'', JStr (url m)),
           (''timestamp'', JNum (Fin (of_nat (timestamp m)))),
           (''hookType'', JStr (hookType m)), (''tabId'', JNum (Fin (of_nat tab)))]"

subsection \<open>Saving a screenshot\<close>

record screenshotResponse =
  success :: bool
  error :: "string option"
  status :: "nat option"
  data :: "string option"

definition screenshotFailedMessage :: string where
  "screenshotFailedMessage = ''Screenshot speichern fehlgeschlagen.''"

text \<open>
  \<open>saveCurrentScreenshot\<close>.  \<open>capture\<close> is what \<open>captureImageBase64\<close> does (\<open>Inl\<close> the
  message of the error it throws), \<open>reply\<close> what \<open>sendMessageAsync\<close> does: reject with
  a message, or resolve with a response, possibly none.
\<close>

definition saveCurrentScreenshot ::
  "bool \<Rightarrow> string + string \<Rightarrow> string + screenshotResponse option \<Rightarrow> content
     \<Rightarrow> string option settled \<times> content" where
  "saveCurrentScreenshot silent capture reply st =
     (if screenshotApiAvailable st then
        (let st0 = st\<lparr>actions := actions st @ [CaptureImage]\<rparr>
         in case capture of
              Inl message \<Rightarrow>
                (Rejected message,
                 if silent then st0 else st0\<lparr>statusText := STATUS_ERROR @ message\<rparr>)
            | Inr imageBase64 \<Rightarrow>
                (let st1 = st0\<lparr>lastPreviewDataUrl := Some (''data:image/jpeg;base64,'' @ imageBase64),
                              actions := actions st0 @ [SendMessage ''SAVE_SCREENSHOT'']\<rparr>
                 in case reply of
                      Inl message \<Rightarrow>
                        (Rejected message,
                         if silent then st1 else st1\<lparr>statusText := STATUS_ERROR @ message\<rparr>)
                    | Inr response \<Rightarrow>
                        if (case response of None \<Rightarrow> False | Some r \<Rightarrow> success r)
                        then (Resolved (case response of None \<Rightarrow> None | Some r \<Rightarrow> data r), st1)
                        else
                          (let message =
                                 (case Option.bind response error of
                                    None \<Rightarrow> screenshotFailedMessage
                                  | Some e \<Rightarrow> if e = [] then screenshotFailedMessage else e);
                               normalizedMessage = toLowerCase message
                           in if Option.bind response status = Some 404
                                 \<or> includes_str normalizedMessage ''not found''
                              then (Resolved None,
                                    if silent then st1\<lparr>screenshotApiAvailable := False\<rparr>
                                    else st1\<lparr>screenshotApiAvailable := False,
                                             statusText := ''Screenshot-API nicht verfuegbar.''\<rparr>)
                              else (Rejected message, st1))))
      else (Resolved None, st))"

subsection \<open>Round transitions\<close>

text \<open>
  What the page and the abort signal do during \<open>handleResultTransition\<close>: whether the
  view-results control is found, what the search for a next-round control meets, for each
  attempt of \<open>startNextGame\<close> whether the play-again control is found and whether the
  panorama comes back, whether the signal is aborted on entry, and during which of the
  awaited \<open>sleep\<close>s it is aborted, if any: 1 after the view-results click, 2 inside
  \<open>goToNextRound\<close>, 3 after the increment.  (A \<open>sleep\<close> rejects only when the signal
  is aborted while it runs.)

  \<open>goToNextRound\<close> first calls \<open>queryButtonByText(BUTTON_TEXT.next)\<close>, which returns
  the first element in document order, among the buttons, links and elements with a
  \<open>data-qa\<close> attribute, whose text in lower case includes one of the labels, \<open>next\<close>
  among them.  The overlay that \<open>createOverlay\<close> appends to the body holds the button
  \<open>#geoviz-next\<close> with the text \<open>Next Round\<close>, whose click listener is
  \<open>incrementRound\<close>.  So the search returns an element of the page when one matches
  and, with the overlay in the document, comes before the overlay's button
  (\<open>pageNextByText\<close>); otherwise it returns the overlay's own button when the overlay is
  in the document (\<open>overlayInDocument\<close>), and nothing when it is not.  The selectors
  tried after that (\<open>nextBySelector\<close>) match by \<open>data-qa\<close> and class, which the
  overlay's button does not have.
\<close>

record transitionEnv =
  signalAborted :: bool
  abortDuring :: "nat option"
  viewResultsFound :: bool
  pageNextByText :: bool
  overlayInDocument :: bool
  nextBySelector :: bool
  playAgain :: "nat \<Rightarrow> bool \<times> bool"
  newSessionId :: string

definition abortError :: string where
  "abortError = ''Aborted''"

fun playAgainAttempts :: "(nat \<Rightarrow> bool \<times> bool) \<Rightarrow> nat \<Rightarrow> nat \<Rightarrow> action list" where
  "playAgainAttempts env attempt 0 = []"
| "playAgainAttempts env attempt (Suc remaining) =
     (if fst (env attempt)
      then Click ''play-again'' #
             (if snd (env attempt) then [] else playAgainAttempts env (Suc attempt) remaining)
      else playAgainAttempts env (Suc attempt) remaining)"

definition startNextGame :: "transitionEnv \<Rightarrow> content \<Rightarrow> content" where
  "startNextGame env st =
     st\<lparr>currentRound := 1,
        lastGuessCoordinates := None,
        currentSessionId := newSessionId env,
        actions := actions st @
          (if signalAborted env then [] else playAgainAttempts (playAgain env) 0 3)\<rparr>"

definition clickViewResultsButton :: "transitionEnv \<Rightarrow> content \<Rightarrow> content" where
  "clickViewResultsButton env st =
     (if viewResultsFound env then st\<lparr>actions := actions st @ [Click ''view-results'']\<rparr> else st)"

definition incrementRound :: "content \<Rightarrow> content" where
  "incrementRound st = st\<lparr>currentRound := currentRound st + 1, lastGuessCoordinates := None\<rparr>"

text \<open>
  \<open>goToNextRound\<close> up to its \<open>sleep\<close>: whether it clicked a control, which is the value
  it returns, and the state after the click.  The click on the overlay's button runs
  \<open>incrementRound\<close>.
\<close>

definition goToNextRound :: "transitionEnv \<Rightarrow> content \<Rightarrow> bool \<times> content" where
  "goToNextRound env st =
     (if pageNextByText env then (True, st\<lparr>actions := actions st @ [Click ''next'']\<rparr>)
      else if overlayInDocument env
      then (True, incrementRound (st\<lparr>actions := actions st @ [Click ''geoviz-next'']\<rparr>))
      else if nextBySelector env then (True, st\<lparr>actions := actions st @ [Click ''next'']\<rparr>)
      else (False, st))"

definition handleResultTransition ::
  "transitionEnv \<Rightarrow> bool \<Rightarrow> content \<Rightarrow> unit settled \<times> content" where
  "handleResultTransition env isFinalRound st =
     (let st1 = clickViewResultsButton env st
      in if abortDuring env = Some 1 then (Rejected abortError, st1)
         else if isFinalRound then (Resolved (), startNextGame env st1)
         else
           (let (advanced, st2) = goToNextRound env st1
            in if advanced then
                 (if abortDuring env = Some 2 then (Rejected abortError, st2)
                  else
                    (let st3 = st2\<lparr>currentRound := currentRound st2 + 1\<rparr>
                     in if abortDuring env = Some 3 then (Rejected abortError, st3)
                        else (Resolved (), st3)))
               else (Resolved (), startNextGame env st2)))"

text \<open>
  The statements the scrape loop of the supervised content script runs once
  \<open>waitForRoundResult\<close> has returned: the increment with its wrap, and the status line.
\<close>

definition scrapeRoundCompleted :: "content \<Rightarrow> content" where
  "scrapeRoundCompleted st =
     (let r = currentRound st + 1;
          r' = (if ROUND_LIMIT < r then 1 else r)
      in st\<lparr>currentRound := r',
             statusText := ''Scrape: Runde '' @ decimalDigits (r' - 1) @ '' abgeschlossen.''\<rparr>)"

text \<open>
  The same place in the scrape loop of the simpler content script: the transition, with
  \<open>currentRound >= ROUND_LIMIT\<close> for the final round, its rejection caught.
\<close>

definition scrapeTransition :: "transitionEnv \<Rightarrow> content \<Rightarrow> content" where
  "scrapeTransition env st =
     (let st1 = snd (handleResultTransition env (ROUND_LIMIT \<le> currentRound st) st)
      in st1\<lparr>statusText := ''Scrape: Runde '' @ decimalDigits (currentRound st1) @ '' abgeschlossen.''\<rparr>)"

subsection \<open>Auto Play\<close>

definition getTargetCoordinates :: "prediction option \<Rightarrow> streetViewMetadata option \<Rightarrow> coords" where
  "getTargetCoordinates p latest =
     (case (Option.bind p pred_lat, Option.bind p pred_lon) of
        (Some a, Some b) \<Rightarrow> (a, b)
      | _ \<Rightarrow>
          (case (Option.bind latest sv_lat, Option.bind latest sv_lon) of
             (Some a, Some b) \<Rightarrow> (a, b)
           | _ \<Rightarrow> (Fin 0, Fin 0)))"

text \<open>
  \<open>updateResult\<close> writes the prediction into the panel \<open>#geoviz-result\<close> of the
  overlay, which is no part of the state; what it gives here is the message of the error
  it throws, if any.  Without the panel it returns at once, and so it does, after showing
  a placeholder, for a prediction that is \<open>null\<close> or \<open>undefined\<close>.  Otherwise its
  template evaluates \<open>prediction.lat.toFixed(5)\<close> and \<open>prediction.lon.toFixed(5)\<close>,
  a \<open>TypeError\<close> when \<open>lat\<close> or \<open>lon\<close> is \<open>null\<close> or \<open>undefined\<close>;
  \<open>typeErrorMessage\<close> is the message the engine gives it.  The rest of the template
  and the two drawing helpers read the other fields of the prediction, which are taken
  as the backend sends them, so that nothing else throws.
\<close>

definition updateResult :: "bool \<Rightarrow> string \<Rightarrow> prediction option \<Rightarrow> string option" where
  "updateResult resultPanel typeErrorMessage p =
     (if \<not> resultPanel then None
      else
        (case p of
           None \<Rightarrow> None
         | Some q \<Rightarrow>
             if pred_lat q = None \<or> pred_lon q = None then Some typeErrorMessage else None))"

text \<open>
  One round of \<open>playAutomaticMatch\<close>.  The environment of the round: whether Auto Play
  was stopped before it, the error of \<open>waitForStreetViewReady\<close> if it throws, what
  \<open>requestPrediction\<close> does (\<open>Inl\<close> the message of its error), whether the overlay's
  result panel is in the document and the message of the engine's \<open>TypeError\<close>, the
  errors of \<open>placeGuessOnMap\<close> and \<open>submitGuess\<close> if they throw, and the transition's
  environment.
\<close>

record roundEnv =
  stopped :: bool
  streetViewError :: "string option"
  predictionResult :: "string + prediction option"
  resultPanel :: bool
  typeErrorMessage :: string
  placeError :: "string option"
  submitError :: "string option"
  transition :: transitionEnv

text \<open>
  The \<open>try\<close> block of the round, with its \<open>catch\<close>: the prediction is requested
  (\<open>requestPrediction\<close> as a whole, recorded as its \<open>RUN_INFERENCE\<close> message), stored
  and shown, the target is computed, the guess is placed and submitted, and the round is
  logged when there is an inference payload.  An error thrown on the way ends the block
  with its message in the status line.
\<close>

definition autoPlayGuess :: "roundEnv \<Rightarrow> content \<Rightarrow> content" where
  "autoPlayGuess env st =
     (let st0 = st\<lparr>actions := actions st @ [SendMessage ''RUN_INFERENCE'']\<rparr>
      in case predictionResult env of
           Inl message \<Rightarrow> st0\<lparr>statusText := STATUS_ERROR @ message\<rparr>
         | Inr p \<Rightarrow>
             (let st0' = st0\<lparr>currentPrediction := p\<rparr>
              in case updateResult (resultPanel env) (typeErrorMessage env) p of
                   Some message \<Rightarrow> st0'\<lparr>statusText := STATUS_ERROR @ message\<rparr>
                 | None \<Rightarrow>
                     (let target = getTargetCoordinates p (latestStreetViewMetadata st0');
                          st1 = st0'\<lparr>actions := actions st0' @ [PlaceGuess (fst target) (snd target)]\<rparr>
                      in case placeError env of
                           Some message \<Rightarrow> st1\<lparr>statusText := STATUS_ERROR @ message\<rparr>
                         | None \<Rightarrow>
                             (let st2 = st1\<lparr>actions := actions st1 @ [SubmitGuess]\<rparr>
                              in case submitError env of
                                   Some message \<Rightarrow> st2\<lparr>statusText := STATUS_ERROR @ message\<rparr>
                                 | None \<Rightarrow>
                                     (case p of
                                        None \<Rightarrow> st2
                                      | Some payload \<Rightarrow>
                                          st2\<lparr>actions := actions st2 @ [SendMessage ''LOG_ROUND'']\<rparr>)))))"

text \<open>
  The body of the loop for one \<open>roundIndex\<close>: \<open>Resolved True\<close> when the loop goes on,
  \<open>Resolved False\<close> when the function returns because Auto Play was stopped.
\<close>

definition playAutomaticRound :: "nat \<Rightarrow> roundEnv \<Rightarrow> content \<Rightarrow> bool settled \<times> content" where
  "playAutomaticRound roundIndex env st =
     (if stopped env then (Resolved False, st)
      else
        (let st0 = st\<lparr>lastGuessCoordinates := None,
                       statusText := ''Auto Play: Runde '' @ decimalDigits (roundIndex + 1)
                                     @ '' von '' @ decimalDigits ROUND_LIMIT\<rparr>
         in case streetViewError env of
              Some message \<Rightarrow> (Rejected message, st0)
            | None \<Rightarrow>
                (let st1 = (case latestStreetViewMetadata st0 of
                              None \<Rightarrow> st0
                            | Some m \<Rightarrow>
                                (case (sv_lat m, sv_lon m) of
                                   (Some a, Some b) \<Rightarrow>
                                     st0\<lparr>actions := actions st0 @ [SendMessage ''SEND_COORDS'']\<rparr>
                                 | _ \<Rightarrow> st0));
                     st2 = autoPlayGuess env st1
                 in (Resolved True,
                     snd (handleResultTransition (transition env)
                            (ROUND_LIMIT - 1 \<le> roundIndex) st2)))))"

text \<open>
  \<open>playAutomaticMatch\<close>: \<open>currentRound\<close> is set to 1 and the loop runs \<open>roundIndex\<close>
  from 0 up to \<open>ROUND_LIMIT - 1\<close>; \<open>envs\<close> gives the environment of each round.
\<close>

fun playAutomaticLoop :: "(nat \<Rightarrow> roundEnv) \<Rightarrow> nat \<Rightarrow> nat \<Rightarrow> content \<Rightarrow> unit settled \<times> content" where
  "playAutomaticLoop envs roundIndex 0 st = (Resolved (), st)"
| "playAutomaticLoop envs roundIndex (Suc remaining) st =
     (case playAutomaticRound roundIndex (envs roundIndex) st of
        (Rejected message, st') \<Rightarrow> (Rejected message, st')
      | (Resolved False, st') \<Rightarrow> (Resolved (), st')
      | (Resolved True, st') \<Rightarrow> playAutomaticLoop envs (Suc roundIndex) remaining st')"

definition playAutomaticMatch :: "(nat \<Rightarrow> roundEnv) \<Rightarrow> content \<Rightarrow> unit settled \<times> content" where
  "playAutomaticMatch envs st =
     playAutomaticLoop envs 0 ROUND_LIMIT (st\<lparr>currentRound := 1\<rparr>)"

section \<open>Sequences of observations\<close>

text \<open>
  The two merge steps applied to a list of observations in order: on the page-context
  channel each observation is a latitude, a longitude and a source tag; on the
  privileged channel it is the metadata for one tab, with the time of its arrival.
\<close>

definition initialOverlay :: overlay where
  "initialOverlay = \<lparr>lastSentCoordsSignature = None, sentCoords = []\<rparr>"

fun notifyAll :: "(rat \<Rightarrow> string) \<Rightarrow> (jsnum \<times> jsnum \<times> string) list \<Rightarrow> overlay \<Rightarrow> overlay" where
  "notifyAll numberToString [] st = st"
| "notifyAll numberToString ((latValue, lonValue, context) # rest) st =
     notifyAll numberToString rest
       (notifyCoordsUpdate numberToString True latValue lonValue context st)"

fun emitAll :: "(rat \<Rightarrow> string) \<Rightarrow> nat \<Rightarrow> (nat \<times> metadata) list \<Rightarrow> background \<Rightarrow> background" where
  "emitAll numberToString tab [] st = st"
| "emitAll numberToString tab ((now, m) # rest) st =
     emitAll numberToString tab rest (emitGeoMetadata numberToString now tab m st)"

definition signatureOf :: "(rat \<Rightarrow> string) \<Rightarrow> jsnum \<times> jsnum \<times> string \<Rightarrow> string" where
  "signatureOf numberToString ob =
     coordsSignature numberToString (fst ob) (fst (snd ob)) (snd (snd ob))"

section \<open>Example observations\<close>

text \<open>
  An observation in Paris as the debugger listener emits it, one whose pair lies outside
  the coordinate ranges (the tile dimensions that \<open>findCoordinates\<close> returns in C2), and
  one whose latitude is infinite, which is what \<open>JSON.parse\<close> reads from \<open>2e308\<close>.
  No finite number among them reaches \<open>10^21\<close>, so \<open>toFixed\<close> never consults the
  printing of large numbers, which is \<open>noBigNumbers\<close> in the examples; \<open>noConversion\<close>
  stands for the conversion of strings and objects to numbers where no payload holds one.
\<close>

definition noConversion :: "json \<Rightarrow> jsnum" where
  "noConversion v = NaN"

definition noBigNumbers :: "rat \<Rightarrow> string" where
  "noBigNumbers x = []"

definition parisObservation :: metadata where
  "parisObservation =
     \<lparr>lat = Fin (488566 / 10000), lon = Fin (23522 / 10000), place = None, language = None,
      source = ''debugger'', url = ''https://maps.googleapis.com/GeoPhotoService'',
      timestamp = 1, hookType = ''debugger''\<rparr>"

definition outOfRangeObservation :: metadata where
  "outOfRangeObservation = parisObservation\<lparr>lat := Fin 13312, lon := Fin 6656\<rparr>"


section \<open>Operations of the content script\<close>

text \<open>
  The modelled functions as operations on the state of the content script, each with the
  environment it meets, and a sequence of them performed in order.
\<close>

datatype operation =
    SaveScreenshot bool "string + string" "string + screenshotResponse option"
  | GeoMetadata "json \<Rightarrow> jsnum" nat json
  | ResultTransition transitionEnv bool
  | ScrapeRoundCompleted
  | ScrapeTransition transitionEnv
  | AutoPlayRound nat roundEnv
  | AutoPlayMatch "nat \<Rightarrow> roundEnv"

fun perform :: "(string \<Rightarrow> string option) \<Rightarrow> operation \<Rightarrow> content \<Rightarrow> content" where
  "perform g (SaveScreenshot silent capture reply) st =
     snd (saveCurrentScreenshot silent capture reply st)"
| "perform g (GeoMetadata convert now payload) st =
     listenForDebuggerMetadata convert g now payload st"
| "perform g (ResultTransition env isFinalRound) st =
     snd (handleResultTransition env isFinalRound st)"
| "perform g ScrapeRoundCompleted st = scrapeRoundCompleted st"
| "perform g (ScrapeTransition env) st = scrapeTransition env st"
| "perform g (AutoPlayRound roundIndex env) st = snd (playAutomaticRound roundIndex env st)"
| "perform g (AutoPlayMatch envs) st = snd (playAutomaticMatch envs st)"

fun performAll :: "(string \<Rightarrow> string option) \<Rightarrow> operation list \<Rightarrow> content \<Rightarrow> content" where
  "performAll g [] st = st"
| "performAll g (op # ops) st = performAll g ops (perform g op st)"

text \<open>
  Environments for the examples, all with the overlay in the document, as \<open>init\<close>
  builds it: a page on which every control is found and nothing is aborted; a page that
  shows neither a view-results nor a next-round control; and an Auto Play round in which
  every step succeeds and the backend's prediction has no coordinates.
\<close>

definition healthyPage :: transitionEnv where
  "healthyPage =
     \<lparr>signalAborted = False, abortDuring = None, viewResultsFound = True,
      pageNextByText = True, overlayInDocument = True, nextBySelector = False,
      playAgain = (\<lambda>attempt. (True, True)), newSessionId = ''chrome-session-2''\<rparr>"

definition pageWithoutControls :: transitionEnv where
  "pageWithoutControls = healthyPage\<lparr>viewResultsFound := False, pageNextByText := False\<rparr>"

definition emptyPrediction :: prediction where
  "emptyPrediction = \<lparr>pred_lat = None, pred_lon = None\<rparr>"

definition blindRound :: roundEnv where
  "blindRound =
     \<lparr>stopped = False, streetViewError = None, predictionResult = Inr (Some emptyPrediction),
      resultPanel = True,
      typeErrorMessage = ''Cannot read properties of undefined (reading 'toFixed')'',
      placeError = None, submitError = None, transition = healthyPage\<rparr>"

definition notFoundResponse :: screenshotResponse where
  "notFoundResponse =
     \<lparr>success = False, error = Some ''{\"detail\":\"Not Found\"}'', status = Some 404,
      data = None\<rparr>"

section \<open>Image validity\<close>

text \<open>
  \<open>atob\<close> is the forgiving base64 decoder of the HTML standard: ASCII whitespace is
  removed, one or two padding signs are dropped when the length is a multiple of four, a
  length of 1 modulo 4 or a character outside the alphabet is an error (\<open>None\<close>, the
  exception), and every four characters give three bytes, the bits left over at the end
  being discarded.  Bytes are numbers below 256.
\<close>

definition isAsciiWhitespace :: "char \<Rightarrow> bool" where
  "isAsciiWhitespace c = ((of_char c :: nat) \<in> {9, 10, 12, 13, 32})"

definition base64Value :: "char \<Rightarrow> nat option" where
  "base64Value c =
     (let n = (of_char c :: nat)
      in if 65 \<le> n \<and> n \<le> 90 then Some (n - 65)
         else if 97 \<le> n \<and> n \<le> 122 then Some (n - 71)
         else if 48 \<le> n \<and> n \<le> 57 then Some (n + 4)
         else if n = 43 then Some 62
         else if n = 47 then Some 63
         else None)"

fun decodeSextets :: "nat list \<Rightarrow> nat list" where
  "decodeSextets (a # b # c # d # rest) =
     (a * 4 + b div 16) # ((b mod 16) * 16 + c div 4) # ((c mod 4) * 64 + d) # decodeSextets rest"
| "decodeSextets [a, b, c] = [a * 4 + b div 16, (b mod 16) * 16 + c div 4]"
| "decodeSextets [a, b] = [a * 4 + b div 16]"
| "decodeSextets [a] = []"
| "decodeSextets [] = []"

definition endsWithPad :: "string \<Rightarrow> bool" where
  "endsWithPad d = (d \<noteq> [] \<and> last d = CHR ''='')"

definition stripPadding :: "string \<Rightarrow> string" where
  "stripPadding d =
     (if length d mod 4 = 0
      then (if endsWithPad d
            then (if endsWithPad (butlast d) then butlast (butlast d) else butlast d)
            else d)
      else d)"

definition atob :: "string \<Rightarrow> nat list option" where
  "atob text =
     (let d = stripPadding (filter (\<lambda>c. \<not> isAsciiWhitespace c) text)
      in if length d mod 4 = 1 then None
         else map_option decodeSextets (those (map base64Value d)))"

text \<open>The elements a loop \<open>for (i = 0; i < xs.length; i += n)\<close> visits.\<close>

fun everyNth :: "nat \<Rightarrow> 'a list \<Rightarrow> 'a list" where
  "everyNth n [] = []"
| "everyNth n (x # xs) = x # everyNth n (drop (n - 1) xs)"

text \<open>
  \<open>isInvalidImage\<close>.  The test \<open>lowCount / totalChecked > 0.8\<close> is made on doubles;
  with at most 750 samples the quotient differs from four fifths by more than the
  rounding error unless it is four fifths exactly, which rounds to the double \<open>0.8\<close>, so
  the test is \<open>4 * totalChecked < 5 * lowCount\<close>.  The \<open>Set\<close> of buckets is the list of
  them without repetitions.
\<close>

definition isInvalidImage :: "string \<Rightarrow> bool" where
  "isInvalidImage base64Data =
     (if base64Data = [] \<or> length base64Data < 1000 then True
      else
        (case atob (take 10000 base64Data) of
           None \<Rightarrow> False
         | Some bytes \<Rightarrow>
             (let sampled = everyNth 10 bytes;
                  totalChecked = length sampled;
                  lowCount = length (filter (\<lambda>b. b < 30) sampled)
              in if 0 < totalChecked \<and> 4 * totalChecked < 5 * lowCount then True
                 else
                   (let uniqueValues = remdups (map (\<lambda>b. b div 10) (everyNth 5 (take 500 bytes)))
                    in if length uniqueValues < 5 then True else False))))"

text \<open>
  The standard base64 encoding of a byte buffer, which is what the payload of a data URL
  is: the text that decodes to the buffer.
\<close>

definition base64Alphabet :: string where
  "base64Alphabet = ''ABCDEFGHIJKLMNOPQRSTUVWXYZabcdefghijklmnopqrstuvwxyz0123456789+/''"

definition base64Char :: "nat \<Rightarrow> char" where
  "base64Char v = base64Alphabet ! v"

fun base64Encode :: "nat list \<Rightarrow> string" where
  "base64Encode (a # b # c # rest) =
     base64Char (a div 4) # base64Char ((a mod 4) * 16 + b div 16)
       # base64Char ((b mod 16) * 4 + c div 64) # base64Char (c mod 64) # base64Encode rest"
| "base64Encode [a, b] =
     [base64Char (a div 4), base64Char ((a mod 4) * 16 + b div 16),
      base64Char ((b mod 16) * 4), CHR ''='']"
| "base64Encode [a] = [base64Char (a div 4), base64Char ((a mod 4) * 16), CHR ''='', CHR ''='']"
| "base64Encode [] = []"

text \<open>
  A payload for the examples: the base64 text of the six bytes 40, 80, 130, 160, 200, 240,
  repeated.
\<close>

definition variedBlock :: string where
  "variedBlock = ''KFCCoMjw''"

definition variedBytes :: "nat list" where
  "variedBytes = [40, 80, 130, 160, 200, 240]"

section \<open>Properties\<close>

subsection \<open>C2: what the inspector's deep search returns\<close>

text \<open>
  C2.  The claim says that \<open>findCoordinates\<close> returns indices 2 and 3 of the first array,
  in depth-first order, of length at least 4 whose elements 2 and 3 are numbers within the
  latitude and longitude ranges.  \<open>findCoordinates\<close> has no range test: on a payload whose
  first such array holds the tile dimensions 13312 and 6656 it returns that pair, although
  the next array holds the in-range pair 48.8566, 2.3522, which is what
  \<open>findCoordinatesDeep\<close>, its copy in the content script, returns on the same payload.
\<close>

theorem findCoordinates_ignores_range:
  "findCoordinates
     (JArr [JArr [JNull, JNull, JNum (Fin 13312), JNum (Fin 6656)],
            JArr [JNull, JNull, JNum (Fin (488566 / 10000)), JNum (Fin (23522 / 10000))]])
     = Some (Fin 13312, Fin 6656)
   \<and> findCoordinatesDeep
     (JArr [JArr [JNull, JNull, JNum (Fin 13312), JNum (Fin 6656)],
            JArr [JNull, JNull, JNum (Fin (488566 / 10000)), JNum (Fin (23522 / 10000))]])
     = Some (Fin (488566 / 10000), Fin (23522 / 10000))"
  by (simp add: findCoordinates_def findCoordinatesDeep_def validCoordinate_def)

subsection \<open>Evaluating the parsers\<close>

lemmas json_eval =
  JSON_parse_def skipSpace_def isJsonSpace_def readNumber_def readExponent_def isDigit_def
  digitsValue_def numberOfRat_def doubleLimit_def

text \<open>
  The array of C4 as the claim prints it closes nine brackets for the eight it opens, and
  is no JSON text.  \<open>syntheticBody\<close> carries it with the surplus bracket dropped.
\<close>

lemma unbalanced_text_is_not_json:
  "JSON_parse ''[null,[[null,null,null,null,null,[[null,[[null,[null,null,48.8566,2.3522]]]]]]]]]'' = None"
  by (simp add: json_eval)

lemma JSON_parse_synthetic:
  "JSON_parse ''[null,[[null,null,null,null,null,[[null,[[null,[null,null,48.8566,2.3522]]]]]]]]''
     = Some syntheticData"
  by (simp add: json_eval syntheticData_def)

lemma syntheticBody_wrapper:
  "syntheticBody \<noteq> []"
  "startsWith syntheticBody CALLBACK_PREFIX"
  "indexOf syntheticBody (CHR ''('') = Some 21"
  "lastIndexOf syntheticBody (CHR '')'') = Some 102"
  "slice syntheticBody 22 102
     = ''[null,[[null,null,null,null,null,[[null,[[null,[null,null,48.8566,2.3522]]]]]]]]''"
  by (simp_all add: syntheticBody_def startsWith_def CALLBACK_PREFIX_def lastIndexOf_def slice_def)

lemma syntheticBody_parses: "parseBody JSON_parse syntheticBody = syntheticData"
  by (simp add: parseBody_def syntheticBody_wrapper JSON_parse_synthetic)

lemma standardPath_syntheticData: "standardPath syntheticData = (None, None)"
  by (simp add: standardPath_def syntheticData_def)

lemma findCoordinatesDeep_syntheticData:
  "findCoordinatesDeep syntheticData = Some (Fin (488566 / 10000), Fin (23522 / 10000))"
  by (simp add: findCoordinatesDeep_def syntheticData_def validCoordinate_def)

lemma findCoordinates_syntheticData:
  "findCoordinates syntheticData = Some (Fin (488566 / 10000), Fin (23522 / 10000))"
  by (simp add: findCoordinates_def syntheticData_def)

lemma primaryLocation_syntheticData:
  "js_index (js_index (js_index (js_index (js_index (js_index (Some syntheticData) 1) 0) 5) 0) 1) 0
     = Some (JArr [JNull, JArr [JNull, JNull, JNum (Fin (488566 / 10000)), JNum (Fin (23522 / 10000))]])"
  by (simp add: syntheticData_def)

lemma extractMetadataFromArray_syntheticData:
  "extractMetadataFromArray syntheticData = Some (Fin (488566 / 10000), Fin (23522 / 10000))"
  by (simp add: extractMetadataFromArray_def standardPath_syntheticData
      findCoordinatesDeep_syntheticData)

lemma parseGeoPhotoResponse_simple_syntheticBody:
  "parseGeoPhotoResponse_simple JSON_parse syntheticBody
     = Some (Fin (488566 / 10000), Fin (23522 / 10000))"
  by (simp add: parseGeoPhotoResponse_simple_def syntheticBody_wrapper JSON_parse_synthetic
      extractMetadataFromArray_syntheticData)

lemma truthy_syntheticData: "truthy (Some syntheticData)"
  by (simp add: syntheticData_def)

lemma parseGeoPhotoResponse_syntheticBody:
  "parseGeoPhotoResponse JSON_parse syntheticBody = Some (Fin (488566 / 10000), Fin (23522 / 10000))"
  by (simp add: parseGeoPhotoResponse_def syntheticBody_wrapper JSON_parse_synthetic
      extractMetadataFromArray_syntheticData truthy_syntheticData)

subsection \<open>C4: the synthetic response\<close>

text \<open>
  C4, as stated, fails: on the parsed synthetic body the fixed-index path
  (\<open>root = data[1][0]\<close>, \<open>location = root[5][0][1][0]\<close>, \<open>lat = location[2]\<close>,
  \<open>lon = location[3]\<close>) reads \<open>undefined\<close> for both coordinates, because the array at
  \<open>root[5][0][1][0]\<close> is \<open>[null, [null, null, 48.8566, 2.3522]]\<close>, of length 2.
\<close>

theorem standard_path_misses_synthetic_pair:
  "standardPath (parseBody JSON_parse syntheticBody) = (None, None)"
  by (simp add: syntheticBody_parses standardPath_syntheticData)

text \<open>
  C4, amended.  The synthetic body parses to \<open>syntheticData\<close>; the array the fixed-index
  path reaches has the pair one level further down; \<open>extractMetadataFromArray\<close> still
  yields latitude 48.8566 and longitude 2.3522, through its deep-search fallback, and the
  deep search of either process yields the same pair on the parsed structure.
\<close>

theorem synthetic_pair_found_by_deep_search:
  "parseBody JSON_parse syntheticBody = syntheticData
   \<and> js_index (js_index (js_index (js_index (js_index (js_index (Some syntheticData) 1) 0) 5) 0) 1) 0
       = Some (JArr [JNull, JArr [JNull, JNull, JNum (Fin (488566 / 10000)), JNum (Fin (23522 / 10000))]])
   \<and> extractMetadataFromArray syntheticData = Some (Fin (488566 / 10000), Fin (23522 / 10000))
   \<and> findCoordinatesDeep syntheticData = Some (Fin (488566 / 10000), Fin (23522 / 10000))
   \<and> findCoordinates syntheticData = Some (Fin (488566 / 10000), Fin (23522 / 10000))"
  using syntheticBody_parses primaryLocation_syntheticData extractMetadataFromArray_syntheticData
    findCoordinatesDeep_syntheticData findCoordinates_syntheticData
  by blast

subsection \<open>C5: bodies without the callback wrapper\<close>

lemma parseBody_without_prefix:
  "\<not> startsWith body CALLBACK_PREFIX \<Longrightarrow> parseBody parse body = JNull"
  by (simp add: parseBody_def)

lemma bareBody_eval:
  "JSON_parse ''[null,null,48.8566,2.3522]''
     = Some (JArr [JNull, JNull, JNum (Fin (244283 / 5000)), JNum (Fin (11761 / 5000))])"
  "JSON_parse ''xx [null,null,48.8566,2.3522] yy'' = None"
  "trim ''[null,null,48.8566,2.3522]'' = ''[null,null,48.8566,2.3522]''"
  "trim ''xx [null,null,48.8566,2.3522] yy'' = ''xx [null,null,48.8566,2.3522] yy''"
  "stripJSONPWrapper ''[null,null,48.8566,2.3522]'' = ''[null,null,48.8566,2.3522]''"
  "stripJSONPWrapper ''xx [null,null,48.8566,2.3522] yy'' = ''xx [null,null,48.8566,2.3522] yy''"
  "matchArrayLiteral ''xx [null,null,48.8566,2.3522] yy'' = Some ''[null,null,48.8566,2.3522]''"
  by (simp_all add: json_eval trim_def isWhiteSpace_def stripJSONPWrapper_def lastIndexOf_def
      matchArrayLiteral_def slice_def)

lemma extractMetadataFromArray_bare:
  "extractMetadataFromArray (JArr [JNull, JNull, JNum (Fin (244283 / 5000)), JNum (Fin (11761 / 5000))])
     = Some (Fin (244283 / 5000), Fin (11761 / 5000))"
  by (simp add: extractMetadataFromArray_def standardPath_def findCoordinatesDeep_def
      validCoordinate_def)

text \<open>
  C5.  The claim says that the body parser of the page-context hook, given a body that
  does not start with the callback prefix, still parses it, as raw JSON first and by the
  span from the first \<open>[\<close> to the last \<open>]\<close> after that.  \<open>parseBody\<close> of the hook
  (geo-bridge.js) does neither: on the JSON body \<open>[null,null,48.8566,2.3522]\<close> and on the
  same array between \<open>xx\<close> and \<open>yy\<close> it returns \<open>null\<close>.  Its two siblings do what
  the claim says on these bodies: \<open>parseGeoPayload\<close> of the background process returns
  the array, and \<open>parseGeoPhotoResponse\<close> of the supervised content script parses it
  and stores its coordinates.
\<close>

theorem parseBody_lacks_fallbacks:
  "parseBody JSON_parse ''[null,null,48.8566,2.3522]'' = JNull
   \<and> parseBody JSON_parse ''xx [null,null,48.8566,2.3522] yy'' = JNull
   \<and> JSON_parse ''[null,null,48.8566,2.3522]''
       = Some (JArr [JNull, JNull, JNum (Fin (488566 / 10000)), JNum (Fin (23522 / 10000))])
   \<and> parseGeoPayload JSON_parse ''[null,null,48.8566,2.3522]''
       = JArr [JNull, JNull, JNum (Fin (488566 / 10000)), JNum (Fin (23522 / 10000))]
   \<and> parseGeoPayload JSON_parse ''xx [null,null,48.8566,2.3522] yy''
       = JArr [JNull, JNull, JNum (Fin (488566 / 10000)), JNum (Fin (23522 / 10000))]
   \<and> parseGeoPhotoResponse JSON_parse ''[null,null,48.8566,2.3522]''
       = Some (Fin (488566 / 10000), Fin (23522 / 10000))
   \<and> parseGeoPhotoResponse JSON_parse ''xx [null,null,48.8566,2.3522] yy''
       = Some (Fin (488566 / 10000), Fin (23522 / 10000))"
proof -
  have 1: "parseBody JSON_parse ''[null,null,48.8566,2.3522]'' = JNull"
    by (rule parseBody_without_prefix) (simp add: startsWith_def CALLBACK_PREFIX_def)
  have 2: "parseBody JSON_parse ''xx [null,null,48.8566,2.3522] yy'' = JNull"
    by (rule parseBody_without_prefix) (simp add: startsWith_def CALLBACK_PREFIX_def)
  have 3: "parseGeoPayload JSON_parse ''[null,null,48.8566,2.3522]''
       = JArr [JNull, JNull, JNum (Fin (244283 / 5000)), JNum (Fin (11761 / 5000))]"
    by (simp add: parseGeoPayload_def bareBody_eval)
  have 4: "parseGeoPayload JSON_parse ''xx [null,null,48.8566,2.3522] yy''
       = JArr [JNull, JNull, JNum (Fin (244283 / 5000)), JNum (Fin (11761 / 5000))]"
    using bareBody_eval(7)
    by (simp add: parseGeoPayload_def bareBody_eval matchArrayLiteral_def
        split: option.splits if_splits)
  have 5: "parseGeoPhotoResponse JSON_parse ''[null,null,48.8566,2.3522]''
       = Some (Fin (244283 / 5000), Fin (11761 / 5000))"
    by (simp add: parseGeoPhotoResponse_def startsWith_def CALLBACK_PREFIX_def bareBody_eval
        extractMetadataFromArray_bare)
  have 6: "parseGeoPhotoResponse JSON_parse ''xx [null,null,48.8566,2.3522] yy''
       = Some (Fin (244283 / 5000), Fin (11761 / 5000))"
    by (simp add: parseGeoPhotoResponse_def startsWith_def CALLBACK_PREFIX_def bareBody_eval
        extractMetadataFromArray_bare)
  from 1 2 3 4 5 6 bareBody_eval(1) show ?thesis by simp
qed

subsection \<open>C7: starting a capture\<close>

text \<open>
  C7.  For a tab id (one that is not false; the message handler, the only caller, answers
  a request without a tab itself), \<open>startGeoCapture\<close>
  \<^item> returns success and changes nothing, with no call to the debugger, when the tab is
    already in the active-capture set;
  \<^item> records the tab as captured and resolves when the attach fails with a message that
    contains "Another debugger", after the one attach call;
  \<^item> rejects exactly when the tab is not captured yet and the browser denies the attach
    (with another message) or the \<open>Network.enable\<close> command, and then with the browser's
    message;
  \<^item> is idempotent: after a call that resolved, a second call resolves and leaves the
    state as it is, whatever the browser would answer.
\<close>

theorem startGeoCapture_contract:
  "tab \<noteq> 0 \<Longrightarrow>
     (tab \<in> activeCaptureTabs st \<longrightarrow> startGeoCapture tab a e st = (Resolved (), st))
   \<and> (tab \<notin> activeCaptureTabs st \<and> a = Some m \<and> includes_str m ''Another debugger'' \<longrightarrow>
         fst (startGeoCapture tab a e st) = Resolved ()
         \<and> tab \<in> activeCaptureTabs (snd (startGeoCapture tab a e st))
         \<and> debuggerCalls (snd (startGeoCapture tab a e st)) = debuggerCalls st @ [Attach tab])
   \<and> ((\<exists>err. fst (startGeoCapture tab a e st) = Rejected err) \<longleftrightarrow>
         tab \<notin> activeCaptureTabs st
         \<and> ((\<exists>msg. a = Some msg \<and> \<not> includes_str msg ''Another debugger'')
              \<or> (a = None \<and> e \<noteq> None)))
   \<and> (\<forall>err. fst (startGeoCapture tab a e st) = Rejected err \<longrightarrow>
         a = Some err \<or> (a = None \<and> e = Some err))
   \<and> (fst (startGeoCapture tab a e st) = Resolved () \<longrightarrow>
         startGeoCapture tab a' e' (snd (startGeoCapture tab a e st))
           = (Resolved (), snd (startGeoCapture tab a e st)))"
  by (auto simp: startGeoCapture_def Let_def split: option.splits if_splits)

lemma startGeoCapture_examples:
  "fst (startGeoCapture 7 None None initialBackground) = Resolved ()"
  "7 \<notin> activeCaptureTabs initialBackground"
  "includes_str ''Another debugger is already attached to the tab with id: 7.'' ''Another debugger''"
  "\<not> includes_str ''Cannot access a chrome:// URL'' ''Another debugger''"
  by (simp_all add: startGeoCapture_def initialBackground_def)

theorem startGeoCapture_contract_witness:
  "startGeoCapture 7 None None (snd (startGeoCapture 7 None None initialBackground))
     = (Resolved (), snd (startGeoCapture 7 None None initialBackground))
   \<and> fst (startGeoCapture 7
             (Some ''Another debugger is already attached to the tab with id: 7.'') None
             initialBackground) = Resolved ()
   \<and> (\<exists>err. fst (startGeoCapture 7 (Some ''Cannot access a chrome:// URL'') None
                    initialBackground) = Rejected err)"
proof -
  have nz: "(7::nat) \<noteq> 0" by simp
  note c1 = startGeoCapture_contract [OF nz, of initialBackground None None _ None None]
  note c2 = startGeoCapture_contract [OF nz, of initialBackground
      "Some ''Another debugger is already attached to the tab with id: 7.''" None
      "''Another debugger is already attached to the tab with id: 7.''"]
  note c3 = startGeoCapture_contract [OF nz, of initialBackground
      "Some ''Cannot access a chrome:// URL''" None]
  from c1 startGeoCapture_examples(1) have 1:
    "startGeoCapture 7 None None (snd (startGeoCapture 7 None None initialBackground))
       = (Resolved (), snd (startGeoCapture 7 None None initialBackground))"
    by blast
  from c2 startGeoCapture_examples(2,3) have 2:
    "fst (startGeoCapture 7
             (Some ''Another debugger is already attached to the tab with id: 7.'') None
             initialBackground) = Resolved ()"
    by blast
  from c3 startGeoCapture_examples(2,4) have 3:
    "\<exists>err. fst (startGeoCapture 7 (Some ''Cannot access a chrome:// URL'') None
                    initialBackground) = Rejected err"
    by blast
  from 1 2 3 show ?thesis by blast
qed

subsection \<open>Evaluating signatures\<close>

lemma floor_numeral_quotient:
  "\<lfloor>numeral a / numeral b :: rat\<rfloor> = numeral a div numeral b"
  using floor_divide_of_int_eq [of "numeral a" "numeral b", where ?'a = rat] by simp

lemma decimalDigits_small: "n < 10 \<Longrightarrow> decimalDigits n = [digitChar n]"
  by (simp add: decimalDigits.simps)

lemma decimalDigits_large:
  "10 \<le> n \<Longrightarrow> decimalDigits n = decimalDigits (n div 10) @ [digitChar (n mod 10)]"
  by (subst decimalDigits.simps) simp

lemmas number_eval =
  toFixed5_def Let_def decimalDigits_small decimalDigits_large digitChar_def
  floor_numeral_quotient char_of_eq_iff

lemma toFixed5_examples:
  "toFixed5 noBigNumbers (Fin (244283 / 5000)) = ''48.85660''"
  "toFixed5 noBigNumbers (Fin (11761 / 5000)) = ''2.35220''"
  "toFixed5 noBigNumbers (Fin 10) = ''10.00000''"
  "toFixed5 noBigNumbers (Fin 13312) = ''13312.00000''"
  "toFixed5 noBigNumbers (Fin 6656) = ''6656.00000''"
  by (simp_all add: number_eval)

lemma tabSignature_examples:
  "tabSignature noBigNumbers parisObservation = ''48.85660:2.35220''"
  "tabSignature noBigNumbers outOfRangeObservation = ''13312.00000:6656.00000''"
  by (simp_all add: tabSignature_def parisObservation_def outOfRangeObservation_def
      toFixed5_examples)

subsection \<open>The merge steps on a sequence of observations\<close>

lemma validCoordinate_isFinite:
  "validCoordinate a b \<Longrightarrow> isFinite a \<and> isFinite b"
  by (cases a; cases b) (auto simp: validCoordinate_def)

lemma notifyCoordsUpdate_last:
  "isFinite a \<Longrightarrow> isFinite b \<Longrightarrow>
   lastSentCoordsSignature (notifyCoordsUpdate f True a b c st) = Some (coordsSignature f a b c)"
  by (auto simp: notifyCoordsUpdate_def Let_def)

lemma notifyCoordsUpdate_sent:
  "isFinite a \<Longrightarrow> isFinite b \<Longrightarrow>
   sentCoords (notifyCoordsUpdate f True a b c st)
     = sentCoords st @
       (if lastSentCoordsSignature st = Some (coordsSignature f a b c) then [] else [(a, b, c)])"
  by (auto simp: notifyCoordsUpdate_def Let_def)

lemma notifyAll_sent:
  "\<forall>ob\<in>set obs. isFinite (fst ob) \<and> isFinite (fst (snd ob)) \<Longrightarrow>
   map (signatureOf f) (sentCoords (notifyAll f obs st))
     = map (signatureOf f) (sentCoords st) @
       (case lastSentCoordsSignature st of
          None \<Rightarrow> remdups_adj (map (signatureOf f) obs)
        | Some s \<Rightarrow> tl (remdups_adj (s # map (signatureOf f) obs)))"
proof (induction obs arbitrary: st)
  case Nil
  then show ?case by (simp split: option.splits)
next
  case (Cons ob obs)
  obtain a b c where ob: "ob = (a, b, c)" by (cases ob) auto
  from Cons.prems ob have fin: "isFinite a" "isFinite b" by auto
  from Cons.prems have rest: "\<forall>ob\<in>set obs. isFinite (fst ob) \<and> isFinite (fst (snd ob))" by simp
  show ?case
    using Cons.IH [OF rest, of "notifyCoordsUpdate f True a b c st"]
    by (auto simp: ob notifyCoordsUpdate_last [OF fin] notifyCoordsUpdate_sent [OF fin]
        signatureOf_def split: option.splits)
qed

lemma tabSignature_not_empty: "tabSignature f m \<noteq> []"
  by (simp add: tabSignature_def)

lemma emitGeoMetadata_sig:
  "tabCoordinateSignatures (emitGeoMetadata f now tab m st) tab = Some (tabSignature f m)"
  by (auto simp: emitGeoMetadata_def Let_def sendGeoMetadataToTab_def persistGeoMetadata_def
      tabSignature_not_empty)

lemma emitGeoMetadata_messages:
  "tab \<noteq> 0 \<Longrightarrow>
   tabMessages (emitGeoMetadata f now tab m st)
     = tabMessages st @
       (if tabCoordinateSignatures st tab = Some (tabSignature f m) then [] else [(tab, m)])"
  by (auto simp: emitGeoMetadata_def Let_def sendGeoMetadataToTab_def persistGeoMetadata_def
      tabSignature_not_empty)

lemma emitAll_messages:
  "tab \<noteq> 0 \<Longrightarrow>
   map (tabSignature f \<circ> snd) (tabMessages (emitAll f tab obs st))
     = map (tabSignature f \<circ> snd) (tabMessages st) @
       (case tabCoordinateSignatures st tab of
          None \<Rightarrow> remdups_adj (map (tabSignature f \<circ> snd) obs)
        | Some s \<Rightarrow> tl (remdups_adj (s # map (tabSignature f \<circ> snd) obs)))"
proof (induction obs arbitrary: st)
  case Nil
  then show ?case by (simp split: option.splits)
next
  case (Cons ob obs)
  obtain now m where ob: "ob = (now, m)" by (cases ob) auto
  show ?case
    using Cons.IH [OF Cons.prems, of "emitGeoMetadata f now tab m st"]
    by (auto simp: ob emitGeoMetadata_sig emitGeoMetadata_messages [OF Cons.prems]
        split: option.splits)
qed

subsection \<open>C1: which observations the merge steps reject\<close>









subsection \<open>C3: one notification per run of equal signatures\<close>

text \<open>
  C3, as stated, fails on the privileged channel: the key that \<open>emitGeoMetadata\<close>
  stores for the tab is \<open>lat:lon\<close> at five decimals, without the source tag.  For the
  observation in Paris that the debugger listener emits, with the source \<open>debugger\<close>,
  the stored key is \<open>48.85660:2.35220\<close>, where the claim has
  \<open>48.85660:2.35220:debugger\<close>, the key that \<open>notifyCoordsUpdate\<close> forms of the same
  coordinates and source.
\<close>

theorem tab_signature_has_no_source_tag:
  "source parisObservation = ''debugger''
   \<and> tabCoordinateSignatures
         (emitGeoMetadata noBigNumbers 1 7 parisObservation initialBackground) 7
       = Some ''48.85660:2.35220''
   \<and> lastSentCoordsSignature
         (notifyCoordsUpdate noBigNumbers True (lat parisObservation) (lon parisObservation)
            (source parisObservation) initialOverlay)
       = Some ''48.85660:2.35220:debugger''"
proof -
  have 1: "tabCoordinateSignatures
         (emitGeoMetadata noBigNumbers 1 7 parisObservation initialBackground) 7
       = Some ''48.85660:2.35220''"
    by (simp add: emitGeoMetadata_sig tabSignature_examples)
  have 2: "coordsSignature noBigNumbers (Fin (244283 / 5000)) (Fin (11761 / 5000)) ''debugger''
       = ''48.85660:2.35220:debugger''"
    by (simp add: coordsSignature_def toFixed5_examples)
  have 3: "lastSentCoordsSignature
         (notifyCoordsUpdate noBigNumbers True (lat parisObservation) (lon parisObservation)
            (source parisObservation) initialOverlay)
       = Some ''48.85660:2.35220:debugger''"
    using 2 by (simp add: notifyCoordsUpdate_def Let_def parisObservation_def initialOverlay_def)
  have 4: "source parisObservation = ''debugger''"
    by (simp add: parisObservation_def)
  from 1 3 4 show ?thesis by simp
qed

text \<open>
  C3, amended.  On the page-context channel (\<open>notifyCoordsUpdate\<close>, key
  \<open>lat:lon:source\<close> at five decimals) the signatures of the notifications sent for a
  sequence of in-range observations are the signatures of the sequence with each run of
  equal neighbours collapsed to one, and an observation whose signature is the last one
  sent changes nothing.  On the privileged channel (\<open>emitGeoMetadata\<close>, for a tab id
  that is not false) the same holds per tab with the key \<open>lat:lon\<close>, which has no
  source tag; every observation on that channel carries the source \<open>debugger\<close>.
\<close>

theorem one_notification_per_signature_run:
  "((\<forall>ob\<in>set obs. validCoordinate (fst ob) (fst (snd ob))) \<longrightarrow>
      map (signatureOf f) (sentCoords (notifyAll f obs initialOverlay))
        = remdups_adj (map (signatureOf f) obs))
   \<and> (lastSentCoordsSignature ov = Some (coordsSignature f a b c) \<longrightarrow>
        notifyCoordsUpdate f rt a b c ov = ov)
   \<and> (tab \<noteq> 0 \<longrightarrow>
        map (tabSignature f \<circ> snd) (tabMessages (emitAll f tab ms initialBackground))
          = remdups_adj (map (tabSignature f \<circ> snd) ms))
   \<and> (tabCoordinateSignatures bg tab = Some (tabSignature f m) \<longrightarrow>
        emitGeoMetadata f now tab m bg = bg)"
proof (intro conjI impI)
  assume "\<forall>ob\<in>set obs. validCoordinate (fst ob) (fst (snd ob))"
  then have "\<forall>ob\<in>set obs. isFinite (fst ob) \<and> isFinite (fst (snd ob))"
    using validCoordinate_isFinite by blast
  from notifyAll_sent [OF this, of f initialOverlay]
  show "map (signatureOf f) (sentCoords (notifyAll f obs initialOverlay))
        = remdups_adj (map (signatureOf f) obs)"
    by (simp add: initialOverlay_def)
next
  assume "lastSentCoordsSignature ov = Some (coordsSignature f a b c)"
  then show "notifyCoordsUpdate f rt a b c ov = ov"
    by (simp add: notifyCoordsUpdate_def Let_def)
next
  assume "tab \<noteq> 0"
  from emitAll_messages [OF this, of f ms initialBackground]
  show "map (tabSignature f \<circ> snd) (tabMessages (emitAll f tab ms initialBackground))
          = remdups_adj (map (tabSignature f \<circ> snd) ms)"
    by (simp add: initialBackground_def)
next
  assume "tabCoordinateSignatures bg tab = Some (tabSignature f m)"
  then show "emitGeoMetadata f now tab m bg = bg"
    by (simp add: emitGeoMetadata_def Let_def tabSignature_not_empty)
qed

theorem one_notification_per_signature_run_witness:
  "map (signatureOf noBigNumbers)
     (sentCoords (notifyAll noBigNumbers
        [(Fin (488566 / 10000), Fin (23522 / 10000), ''geo_photo''),
         (Fin (488566 / 10000), Fin (23522 / 10000), ''geo_photo''),
         (Fin 10, Fin 10, ''geo_photo'')] initialOverlay))
     = [''48.85660:2.35220:geo_photo'', ''10.00000:10.00000:geo_photo'']
   \<and> notifyCoordsUpdate noBigNumbers True (Fin 10) (Fin 10) ''geo_photo''
         \<lparr>lastSentCoordsSignature = Some ''10.00000:10.00000:geo_photo'', sentCoords = []\<rparr>
       = \<lparr>lastSentCoordsSignature = Some ''10.00000:10.00000:geo_photo'', sentCoords = []\<rparr>
   \<and> map (tabSignature noBigNumbers \<circ> snd)
         (tabMessages (emitAll noBigNumbers 7
            [(1, parisObservation), (2, parisObservation), (3, outOfRangeObservation)]
            initialBackground))
       = [''48.85660:2.35220'', ''13312.00000:6656.00000'']
   \<and> emitGeoMetadata noBigNumbers 2 7 parisObservation
         (emitGeoMetadata noBigNumbers 1 7 parisObservation initialBackground)
       = emitGeoMetadata noBigNumbers 1 7 parisObservation initialBackground"
proof -
  let ?obs = "[(Fin (488566 / 10000), Fin (23522 / 10000), ''geo_photo''),
         (Fin (488566 / 10000), Fin (23522 / 10000), ''geo_photo''),
         (Fin 10, Fin 10, ''geo_photo'')]"
  let ?ov = "\<lparr>lastSentCoordsSignature = Some ''10.00000:10.00000:geo_photo'', sentCoords = []\<rparr>"
  let ?ms = "[(1::nat, parisObservation), (2, parisObservation), (3, outOfRangeObservation)]"
  let ?bg = "emitGeoMetadata noBigNumbers 1 7 parisObservation initialBackground"
  note w = one_notification_per_signature_run [of ?obs noBigNumbers ?ov "Fin 10" "Fin 10"
      "''geo_photo''" True 7 ?ms ?bg parisObservation 2]
  have h1: "\<forall>ob\<in>set ?obs. validCoordinate (fst ob) (fst (snd ob))"
    by (simp add: validCoordinate_def)
  have h2: "lastSentCoordsSignature ?ov = Some (coordsSignature noBigNumbers (Fin 10) (Fin 10) ''geo_photo'')"
    by (simp add: coordsSignature_def toFixed5_examples)
  have h3: "(7::nat) \<noteq> 0" by simp
  have h4: "tabCoordinateSignatures ?bg 7 = Some (tabSignature noBigNumbers parisObservation)"
    by (rule emitGeoMetadata_sig)
  have e1: "remdups_adj (map (signatureOf noBigNumbers) ?obs)
      = [''48.85660:2.35220:geo_photo'', ''10.00000:10.00000:geo_photo'']"
    by (simp add: signatureOf_def coordsSignature_def toFixed5_examples)
  have e3: "remdups_adj (map (tabSignature noBigNumbers \<circ> snd) ?ms)
      = [''48.85660:2.35220'', ''13312.00000:6656.00000'']"
    by (simp add: tabSignature_examples)
  from w h1 have 1: "map (signatureOf noBigNumbers) (sentCoords (notifyAll noBigNumbers ?obs initialOverlay))
      = remdups_adj (map (signatureOf noBigNumbers) ?obs)" by blast
  from w h2 have 2: "notifyCoordsUpdate noBigNumbers True (Fin 10) (Fin 10) ''geo_photo'' ?ov = ?ov"
    by blast
  from w h3 have 3: "map (tabSignature noBigNumbers \<circ> snd) (tabMessages (emitAll noBigNumbers 7 ?ms initialBackground))
      = remdups_adj (map (tabSignature noBigNumbers \<circ> snd) ?ms)" by blast
  from w h4 have 4: "emitGeoMetadata noBigNumbers 2 7 parisObservation ?bg = ?bg" by blast
  from 1 2 3 4 e1 e3 show ?thesis by simp
qed

subsection \<open>C6: the round counter\<close>

lemma scrapeRoundCompleted_round:
  "currentRound (scrapeRoundCompleted st)
     = (if currentRound st < ROUND_LIMIT then currentRound st + 1 else 1)"
  by (simp add: scrapeRoundCompleted_def Let_def)

lemma handleResultTransition_pageWithoutControls:
  "handleResultTransition pageWithoutControls False st
     = (Resolved (),
        st\<lparr>currentRound := currentRound st + 2, lastGuessCoordinates := None,
           actions := actions st @ [Click ''geoviz-next'']\<rparr>)"
  by (simp add: handleResultTransition_def goToNextRound_def incrementRound_def
      clickViewResultsButton_def pageWithoutControls_def healthyPage_def Let_def)

lemma handleResultTransition_healthyPage:
  "handleResultTransition healthyPage False st
     = (Resolved (),
        st\<lparr>currentRound := currentRound st + 1,
           actions := actions st @ [Click ''view-results'', Click ''next'']\<rparr>)"
  by (simp add: handleResultTransition_def goToNextRound_def clickViewResultsButton_def
      healthyPage_def Let_def)

text \<open>
  C6.  The claim says that \<open>currentRound\<close> goes up by exactly 1 per completed round and
  never skips a value.  In Auto Play, and in the scrape loop of the simpler content
  script, the counter is advanced by \<open>handleResultTransition\<close>.  On a page that shows no
  next-round control of its own, the text search of \<open>goToNextRound\<close> finds the
  \<open>Next Round\<close> button of the script's overlay and clicks it, which runs
  \<open>incrementRound\<close>; \<open>goToNextRound\<close> returns true and \<open>handleResultTransition\<close>
  adds 1 again.  From round 2 the counter goes to 4, on its own and inside a round of
  Auto Play or of the simpler scrape loop, where the increment of the supervised scrape
  loop gives 3, and where the same transition on a page with a next-round control gives 3.
\<close>

theorem round_skipped_by_overlay_button:
  "handleResultTransition pageWithoutControls False (initialContent\<lparr>currentRound := 2\<rparr>)
     = (Resolved (),
        initialContent\<lparr>currentRound := 4, actions := [Click ''geoviz-next'']\<rparr>)
   \<and> currentRound (snd (playAutomaticRound 1 (blindRound\<lparr>transition := pageWithoutControls\<rparr>)
         (initialContent\<lparr>currentRound := 2\<rparr>))) = 4
   \<and> currentRound (scrapeTransition pageWithoutControls (initialContent\<lparr>currentRound := 2\<rparr>)) = 4
   \<and> currentRound (scrapeRoundCompleted (initialContent\<lparr>currentRound := 2\<rparr>)) = 3
   \<and> currentRound (snd (handleResultTransition healthyPage False
         (initialContent\<lparr>currentRound := 2\<rparr>))) = 3"
proof -
  have 1: "handleResultTransition pageWithoutControls False (initialContent\<lparr>currentRound := 2\<rparr>)
     = (Resolved (),
        initialContent\<lparr>currentRound := 4, actions := [Click ''geoviz-next'']\<rparr>)"
    by (simp add: handleResultTransition_pageWithoutControls initialContent_def)
  have 2: "currentRound (snd (playAutomaticRound 1 (blindRound\<lparr>transition := pageWithoutControls\<rparr>)
         (initialContent\<lparr>currentRound := 2\<rparr>))) = 4"
    by (simp add: playAutomaticRound_def Let_def blindRound_def ROUND_LIMIT_def
        handleResultTransition_pageWithoutControls autoPlayGuess_def updateResult_def
        emptyPrediction_def initialContent_def)
  have 3: "currentRound (scrapeTransition pageWithoutControls (initialContent\<lparr>currentRound := 2\<rparr>)) = 4"
    by (simp add: scrapeTransition_def Let_def ROUND_LIMIT_def
        handleResultTransition_pageWithoutControls)
  have 4: "currentRound (scrapeRoundCompleted (initialContent\<lparr>currentRound := 2\<rparr>)) = 3"
    by (simp add: scrapeRoundCompleted_round ROUND_LIMIT_def)
  have 5: "currentRound (snd (handleResultTransition healthyPage False
         (initialContent\<lparr>currentRound := 2\<rparr>))) = 3"
    by (simp add: handleResultTransition_healthyPage)
  from 1 2 3 4 5 show ?thesis by simp
qed

subsection \<open>C8: the screenshot endpoint is given up for good\<close>

lemma flag_startNextGame [simp]:
  "screenshotApiAvailable (startNextGame env st) = screenshotApiAvailable st"
  by (simp add: startNextGame_def)

lemma flag_clickViewResultsButton [simp]:
  "screenshotApiAvailable (clickViewResultsButton env st) = screenshotApiAvailable st"
  by (simp add: clickViewResultsButton_def)

lemma flag_goToNextRound [simp]:
  "screenshotApiAvailable (snd (goToNextRound env st)) = screenshotApiAvailable st"
  by (simp add: goToNextRound_def incrementRound_def)

lemma flag_handleResultTransition [simp]:
  "screenshotApiAvailable (snd (handleResultTransition env isFinalRound st))
     = screenshotApiAvailable st"
  by (simp add: handleResultTransition_def goToNextRound_def incrementRound_def Let_def)

lemma flag_scrapeRoundCompleted [simp]:
  "screenshotApiAvailable (scrapeRoundCompleted st) = screenshotApiAvailable st"
  by (simp add: scrapeRoundCompleted_def Let_def)

lemma flag_scrapeTransition [simp]:
  "screenshotApiAvailable (scrapeTransition env st) = screenshotApiAvailable st"
  by (simp add: scrapeTransition_def Let_def)

lemma flag_listenForDebuggerMetadata [simp]:
  "screenshotApiAvailable (listenForDebuggerMetadata c g now payload st)
     = screenshotApiAvailable st"
  by (simp add: listenForDebuggerMetadata_def Let_def)

lemma flag_autoPlayGuess [simp]:
  "screenshotApiAvailable (autoPlayGuess env st) = screenshotApiAvailable st"
  by (simp add: autoPlayGuess_def Let_def split: sum.splits option.splits)

lemma flag_playAutomaticRound [simp]:
  "screenshotApiAvailable (snd (playAutomaticRound i env st)) = screenshotApiAvailable st"
  by (simp add: playAutomaticRound_def Let_def split: option.splits prod.splits)

lemma flag_playAutomaticLoop [simp]:
  "screenshotApiAvailable (snd (playAutomaticLoop envs i k st)) = screenshotApiAvailable st"
proof (induction k arbitrary: i st)
  case 0
  then show ?case by simp
next
  case (Suc k)
  obtain r st' where r: "playAutomaticRound i (envs i) st = (r, st')"
    by (cases "playAutomaticRound i (envs i) st") auto
  then have "screenshotApiAvailable st' = screenshotApiAvailable st"
    using flag_playAutomaticRound [of i "envs i" st] by simp
  with Suc r show ?case
    by (cases r) (auto split: bool.splits)
qed

lemma flag_playAutomaticMatch [simp]:
  "screenshotApiAvailable (snd (playAutomaticMatch envs st)) = screenshotApiAvailable st"
  by (simp add: playAutomaticMatch_def)

lemma saveCurrentScreenshot_disabled:
  "\<not> screenshotApiAvailable st \<Longrightarrow>
   saveCurrentScreenshot silent capture reply st = (Resolved None, st)"
  by (simp add: saveCurrentScreenshot_def)

lemma perform_keeps_disabled:
  "\<not> screenshotApiAvailable st \<Longrightarrow> \<not> screenshotApiAvailable (perform g op st)"
  by (cases op) (simp_all add: saveCurrentScreenshot_disabled)

lemma performAll_keeps_disabled:
  "\<not> screenshotApiAvailable st \<Longrightarrow> \<not> screenshotApiAvailable (performAll g ops st)"
  by (induction ops arbitrary: st) (simp_all add: perform_keeps_disabled)

text \<open>
  C8.  A save attempt that is answered without success, with status 404 or with a message
  that contains "not found" in lower case, returns \<open>null\<close> and sets
  \<open>screenshotApiAvailable\<close> to false.  From a state in which the flag is false, after
  any sequence of the operations modelled here the flag is still false, and a call of
  \<open>saveCurrentScreenshot\<close> returns \<open>null\<close> and leaves the whole state as it is:
  no image is captured and no message is sent.
\<close>

theorem screenshot_saving_disabled_for_good:
  "(screenshotApiAvailable st \<and> \<not> success r
      \<and> (status r = Some 404
           \<or> includes_str (toLowerCase (case error r of None \<Rightarrow> screenshotFailedMessage
                 | Some e \<Rightarrow> if e = [] then screenshotFailedMessage else e)) ''not found'')
      \<longrightarrow>
      fst (saveCurrentScreenshot silent (Inr img) (Inr (Some r)) st) = Resolved None
      \<and> \<not> screenshotApiAvailable (snd (saveCurrentScreenshot silent (Inr img) (Inr (Some r)) st)))
   \<and> (\<not> screenshotApiAvailable st \<longrightarrow>
        \<not> screenshotApiAvailable (performAll g ops st)
        \<and> saveCurrentScreenshot silent' capture reply (performAll g ops st)
            = (Resolved None, performAll g ops st))"
  by (auto simp: saveCurrentScreenshot_def Let_def performAll_keeps_disabled)

lemma toLowerCase_notFound:
  "toLowerCase ''{\"detail\":\"Not Found\"}'' = ''{\"detail\":\"not found\"}''"
  by (simp add: toLowerCase_def lowerChar_def char_of_eq_iff)

theorem screenshot_saving_disabled_for_good_witness:
  "fst (saveCurrentScreenshot True (Inr ''/9j/4AAQ'') (Inr (Some notFoundResponse)) initialContent)
     = Resolved None
   \<and> saveCurrentScreenshot True (Inr ''/9j/4AAQ'') (Inr (Some notFoundResponse))
         (performAll (\<lambda>a. None)
            [ScrapeRoundCompleted, GeoMetadata noConversion 9 (geoMetadataPayload 7 parisObservation), AutoPlayMatch (\<lambda>i. blindRound)]
            (snd (saveCurrentScreenshot True (Inr ''/9j/4AAQ'') (Inr (Some notFoundResponse))
                    initialContent)))
       = (Resolved None,
          performAll (\<lambda>a. None)
            [ScrapeRoundCompleted, GeoMetadata noConversion 9 (geoMetadataPayload 7 parisObservation), AutoPlayMatch (\<lambda>i. blindRound)]
            (snd (saveCurrentScreenshot True (Inr ''/9j/4AAQ'') (Inr (Some notFoundResponse))
                    initialContent)))"
proof -
  let ?st = "snd (saveCurrentScreenshot True (Inr ''/9j/4AAQ'') (Inr (Some notFoundResponse))
                    initialContent)"
  let ?ops = "[ScrapeRoundCompleted, GeoMetadata noConversion 9 (geoMetadataPayload 7 parisObservation), AutoPlayMatch (\<lambda>i. blindRound)]"
  note w1 = screenshot_saving_disabled_for_good [of initialContent notFoundResponse True "''/9j/4AAQ''"]
  note w2 = screenshot_saving_disabled_for_good [of ?st _ _ _ "\<lambda>a. None" ?ops True
      "Inr ''/9j/4AAQ''" "Inr (Some notFoundResponse)"]
  have h: "screenshotApiAvailable initialContent \<and> \<not> success notFoundResponse
      \<and> (status notFoundResponse = Some 404
           \<or> includes_str (toLowerCase (case error notFoundResponse of None \<Rightarrow> screenshotFailedMessage
                 | Some e \<Rightarrow> if e = [] then screenshotFailedMessage else e)) ''not found'')"
    by (simp add: initialContent_def notFoundResponse_def)
  from w1 h have 1:
    "fst (saveCurrentScreenshot True (Inr ''/9j/4AAQ'') (Inr (Some notFoundResponse)) initialContent)
       = Resolved None"
    and off: "\<not> screenshotApiAvailable ?st"
    by blast+
  from w2 off have 2:
    "saveCurrentScreenshot True (Inr ''/9j/4AAQ'') (Inr (Some notFoundResponse))
         (performAll (\<lambda>a. None) ?ops ?st)
       = (Resolved None, performAll (\<lambda>a. None) ?ops ?st)"
    by blast
  from 1 2 show ?thesis by blast
qed

subsection \<open>C9: black and varied images\<close>



lemma base64Char_zero: "base64Char 0 = CHR ''A''"
  by (simp add: base64Char_def base64Alphabet_def)

lemma base64Encode_zero_step:
  "base64Encode (0 # 0 # 0 # rest) = CHR ''A'' # CHR ''A'' # CHR ''A'' # CHR ''A'' # base64Encode rest"
  by (simp add: base64Char_zero)

lemma base64Encode_zero_blocks:
  "base64Encode (replicate (3 * k) 0 @ rest) = replicate (4 * k) (CHR ''A'') @ base64Encode rest"
proof (induction k)
  case 0
  then show ?case by simp
next
  case (Suc k)
  have a: "replicate (3 * Suc k) (0::nat) = 0 # 0 # 0 # replicate (3 * k) 0"
    by (simp add: numeral_3_eq_3)
  have b: "replicate (4 * Suc k) (CHR ''A'')
      = CHR ''A'' # CHR ''A'' # CHR ''A'' # CHR ''A'' # replicate (4 * k) (CHR ''A'')"
    by (simp add: numeral_eq_Suc)
  show ?case
    unfolding a b using Suc by (simp only: append_Cons base64Encode_zero_step)
qed

lemma replicate_split3: "replicate n x = replicate (3 * (n div 3)) x @ replicate (n mod 3) x"
  by (simp flip: replicate_add)

lemma base64Encode_zero_tail:
  "base64Encode (replicate 0 0) = []"
  "base64Encode (replicate 1 0) = ''AA==''"
  "base64Encode (replicate 2 0) = ''AAA=''"
  by (simp_all add: base64Char_zero numeral_2_eq_2)

lemma base64Encode_zeros_size:
  "\<exists>a e. base64Encode (replicate n 0) = replicate a (CHR ''A'') @ replicate e (CHR ''='')
         \<and> e \<le> 2 \<and> (a + e) mod 4 = 0 \<and> a * 3 div 4 = n"
proof -
  have eq: "base64Encode (replicate n 0)
      = replicate (4 * (n div 3)) (CHR ''A'') @ base64Encode (replicate (n mod 3) 0)"
    by (subst replicate_split3 [of n 0]) (rule base64Encode_zero_blocks)
  have "n mod 3 < 3" by simp
  then consider "n mod 3 = 0" | "n mod 3 = 1" | "n mod 3 = 2" by linarith
  then show ?thesis
  proof cases
    case 1
    with eq have "base64Encode (replicate n 0)
        = replicate (4 * (n div 3)) (CHR ''A'') @ replicate 0 (CHR ''='')"
      by simp
    moreover from 1 have "4 * (n div 3) * 3 div 4 = n" by presburger
    ultimately show ?thesis by (intro exI [of _ "4 * (n div 3)"] exI [of _ 0]) simp
  next
    case 2
    have "''AA=='' = replicate 2 (CHR ''A'') @ replicate 2 (CHR ''='')"
      by (simp add: numeral_2_eq_2)
    with eq 2 have "base64Encode (replicate n 0)
        = replicate (4 * (n div 3) + 2) (CHR ''A'') @ replicate 2 (CHR ''='')"
      by (simp only: base64Encode_zero_tail replicate_add append_assoc)
    moreover from 2 have "(4 * (n div 3) + 2) * 3 div 4 = n" by presburger
    ultimately show ?thesis by (intro exI [of _ "4 * (n div 3) + 2"] exI [of _ 2]) simp
  next
    case 3
    have "''AAA='' = replicate 3 (CHR ''A'') @ replicate 1 (CHR ''='')"
      by (simp add: numeral_3_eq_3)
    with eq 3 have "base64Encode (replicate n 0)
        = replicate (4 * (n div 3) + 3) (CHR ''A'') @ replicate 1 (CHR ''='')"
      by (simp only: base64Encode_zero_tail replicate_add append_assoc)
    moreover from 3 have "(4 * (n div 3) + 3) * 3 div 4 = n" by presburger
    ultimately show ?thesis by (intro exI [of _ "4 * (n div 3) + 3"] exI [of _ 1]) simp
  qed
qed

lemma take_padded:
  assumes "(a + e) mod 4 = 0" "e \<le> 2"
  shows "\<exists>a' e'. take 10000 (replicate a (CHR ''A'') @ replicate e (CHR ''=''))
            = replicate a' (CHR ''A'') @ replicate e' (CHR ''='')
          \<and> e' \<le> 2 \<and> (a' + e') mod 4 = 0 \<and> min (a + e) 10000 = a' + e'"
proof (cases "a + e \<le> 10000")
  case True
  then have "take 10000 (replicate a (CHR ''A'') @ replicate e (CHR ''=''))
      = replicate a (CHR ''A'') @ replicate e (CHR ''='')"
    by simp
  with assms True show ?thesis by (intro exI [of _ a] exI [of _ e]) auto
next
  case False
  from assms(1) have "4 dvd a + e" by (simp add: mod_eq_0_iff_dvd)
  then obtain q where q: "a + e = 4 * q" by (auto elim: dvdE)
  with False have "2501 \<le> q" by simp
  with q assms(2) have a: "10000 \<le> a" by simp
  then have "take 10000 (replicate a (CHR ''A'') @ replicate e (CHR ''=''))
      = replicate 10000 (CHR ''A'') @ replicate 0 (CHR ''='')"
    by (simp add: min_def)
  moreover have "(10000 + 0) mod 4 = (0::nat)" by simp
  moreover from False have "min (a + e) 10000 = 10000 + 0" by simp
  ultimately show ?thesis by (intro exI [of _ 10000] exI [of _ 0]) simp
qed

lemma those_replicate: "those (replicate n (Some x)) = Some (replicate n x)"
  by (induction n) simp_all

lemma decodeSextets_zero:
  "\<forall>v\<in>set vs. v = 0 \<Longrightarrow> \<forall>b\<in>set (decodeSextets vs). b = (0::nat)"
  by (induction vs rule: decodeSextets.induct) auto

lemma base64Value_A: "base64Value (CHR ''A'') = Some 0"
  by (simp add: base64Value_def)

lemma stripPadding_padded:
  assumes "(a + e) mod 4 = 0" "e \<le> 2" "0 < a"
  shows "stripPadding (replicate a (CHR ''A'') @ replicate e (CHR ''='')) = replicate a (CHR ''A'')"
proof -
  from assms(2) consider "e = 0" | "e = 1" | "e = 2" by linarith
  then show ?thesis
  proof cases
    case 1
    with assms show ?thesis by (simp add: stripPadding_def endsWithPad_def)
  next
    case 2
    with assms show ?thesis
      by (simp add: stripPadding_def endsWithPad_def butlast_append)
  next
    case 3
    then have "replicate e (CHR ''='') = ''==''" by (simp add: numeral_2_eq_2)
    with assms(1) assms(3) 3 show ?thesis
      by (simp add: stripPadding_def endsWithPad_def butlast_append)
  qed
qed

lemma length_decodeSextets: "length (decodeSextets vs) = length vs * 3 div 4"
  by (induction vs rule: decodeSextets.induct) simp_all

lemma decodeSextets_zeros: "decodeSextets (replicate a 0) = replicate (a * 3 div 4) 0"
proof (rule replicate_eqI)
  show "length (decodeSextets (replicate a 0)) = a * 3 div 4"
    by (simp add: length_decodeSextets)
next
  fix y
  assume "y \<in> set (decodeSextets (replicate a 0))"
  moreover have "\<forall>b\<in>set (decodeSextets (replicate a 0)). b = 0"
    by (intro decodeSextets_zero) simp
  ultimately show "y = 0" by blast
qed

lemma atob_padded_eq:
  assumes "(a + e) mod 4 = 0" "e \<le> 2"
  shows "atob (replicate a (CHR ''A'') @ replicate e (CHR ''='')) = Some (replicate (a * 3 div 4) 0)"
proof (cases "a = 0")
  case True
  with assms have "e = 0" by presburger
  with True show ?thesis by (simp add: atob_def stripPadding_def endsWithPad_def)
next
  case False
  have f: "filter (\<lambda>c. \<not> isAsciiWhitespace c) (replicate a (CHR ''A'') @ replicate e (CHR ''=''))
      = replicate a (CHR ''A'') @ replicate e (CHR ''='')"
    by (simp add: isAsciiWhitespace_def)
  from assms False have s: "stripPadding (replicate a (CHR ''A'') @ replicate e (CHR ''=''))
      = replicate a (CHR ''A'')"
    by (intro stripPadding_padded) auto
  from assms have m: "a mod 4 \<noteq> 1" by presburger
  have v: "those (map base64Value (replicate a (CHR ''A''))) = Some (replicate a 0)"
    by (simp add: base64Value_A those_replicate)
  have "atob (replicate a (CHR ''A'') @ replicate e (CHR ''='')) = Some (decodeSextets (replicate a 0))"
    unfolding atob_def f s Let_def v using m by simp
  then show ?thesis by (simp only: decodeSextets_zeros)
qed

lemma atob_base64Encode_zeros: "atob (base64Encode (replicate n 0)) = Some (replicate n 0)"
proof -
  obtain a e where
    s: "base64Encode (replicate n 0) = replicate a (CHR ''A'') @ replicate e (CHR ''='')"
    and e: "e \<le> 2" and m: "(a + e) mod 4 = 0" and n: "a * 3 div 4 = n"
    using base64Encode_zeros_size [of n] by (elim exE conjE) (rule that)
  from atob_padded_eq [OF m e] s n show ?thesis by simp
qed

lemma everyNth_subset: "set (everyNth n xs) \<subseteq> set xs"
proof (induction n xs rule: everyNth.induct)
  case (1 n)
  then show ?case by simp
next
  case (2 n x xs)
  have "set (drop (n - 1) xs) \<subseteq> set xs" by (rule set_drop_subset)
  with 2 show ?case by auto
qed

lemma everyNth_not_empty: "xs \<noteq> [] \<Longrightarrow> everyNth n xs \<noteq> []"
  by (cases xs) simp_all

lemma black_sample_invalid:
  assumes "1000 \<le> length base64Data"
    and "atob (take 10000 base64Data) = Some bytes"
    and "\<forall>b\<in>set bytes. b = 0"
  shows "isInvalidImage base64Data"
proof -
  let ?uniform = "map (\<lambda>b. b div 10) (everyNth 5 (take 500 bytes))"
  have "set (everyNth 5 (take 500 bytes)) \<subseteq> set bytes"
    using everyNth_subset set_take_subset by (rule order_trans)
  with assms(3) have "\<forall>b\<in>set (everyNth 5 (take 500 bytes)). b div 10 = 0" by fastforce
  then have "set ?uniform \<subseteq> {0}" by auto
  then have "card (set ?uniform) \<le> card {0::nat}" by (intro card_mono) simp_all
  then have "length (remdups ?uniform) < 5" by (simp add: length_remdups_card_conv)
  with assms(1,2) show ?thesis
    by (simp add: isInvalidImage_def Let_def)
qed

lemma black_buffer_invalid:
  assumes len: "1000 \<le> length (base64Encode (replicate n 0))"
  shows "isInvalidImage (base64Encode (replicate n 0))"
proof -
  obtain a e where
    s: "base64Encode (replicate n 0) = replicate a (CHR ''A'') @ replicate e (CHR ''='')"
    and e: "e \<le> 2" and m: "(a + e) mod 4 = 0"
    using base64Encode_zeros_size [of n] by (elim exE conjE) (rule that)
  obtain a' e' where
    t: "take 10000 (replicate a (CHR ''A'') @ replicate e (CHR ''=''))
          = replicate a' (CHR ''A'') @ replicate e' (CHR ''='')"
    and e': "e' \<le> 2" and m': "(a' + e') mod 4 = 0"
    using take_padded [OF m e] by (elim exE conjE) (rule that)
  from atob_padded_eq [OF m' e'] s t
  have "atob (take 10000 (base64Encode (replicate n 0))) = Some (replicate (a' * 3 div 4) 0)"
    by simp
  from black_sample_invalid [OF len this] show ?thesis by simp
qed

lemma varied_sample_valid:
  assumes "1000 \<le> length base64Data"
    and "atob (take 10000 base64Data) = Some bytes"
    and "5 \<le> card ((\<lambda>b. b div 10) ` set (everyNth 5 (take 500 bytes)))"
    and "5 * length (filter (\<lambda>b. b < 30) (everyNth 10 bytes)) < 4 * length (everyNth 10 bytes)"
  shows "\<not> isInvalidImage base64Data"
  using assms by (auto simp: isInvalidImage_def Let_def length_remdups_card_conv)



lemma length_concat_replicate: "length (concat (replicate n xs)) = n * length xs"
  by (induction n) simp_all

lemma set_concat_replicate: "set (concat (replicate n xs)) \<subseteq> set xs"
  by (induction n) auto

lemma filter_variedBlock:
  "filter (\<lambda>c. \<not> isAsciiWhitespace c) (concat (replicate n variedBlock))
     = concat (replicate n variedBlock)"
  by (induction n) (simp_all add: variedBlock_def isAsciiWhitespace_def)

lemma endsWithPad_variedBlock: "\<not> endsWithPad (concat (replicate n variedBlock))"
proof (cases n)
  case 0
  then show ?thesis by (simp add: endsWithPad_def)
next
  case (Suc m)
  have "replicate (Suc m) variedBlock = replicate m variedBlock @ [variedBlock]"
    by (simp add: replicate_append_same)
  then have "concat (replicate (Suc m) variedBlock) = concat (replicate m variedBlock) @ variedBlock"
    by simp
  with Suc show ?thesis by (simp add: endsWithPad_def variedBlock_def)
qed

lemma those_variedBlock:
  "those (map base64Value (concat (replicate n variedBlock)))
     = Some (concat (replicate n [10, 5, 2, 2, 40, 12, 35, 48]))"
  by (induction n) (simp_all add: variedBlock_def base64Value_def)

lemma decodeSextets_variedBlock:
  "decodeSextets (concat (replicate n [10, 5, 2, 2, 40, 12, 35, 48]))
     = concat (replicate n variedBytes)"
  by (induction n) (simp_all add: variedBytes_def)

lemma atob_variedBlock:
  "atob (concat (replicate n variedBlock)) = Some (concat (replicate n variedBytes))"
proof -
  have "length variedBlock = 8" by (simp add: variedBlock_def)
  moreover have "(n * 8) mod 4 = (0::nat)" by presburger
  ultimately have l: "length (concat (replicate n variedBlock)) mod 4 = 0"
    by (simp only: length_concat_replicate)
  have s: "stripPadding (concat (replicate n variedBlock)) = concat (replicate n variedBlock)"
    by (simp add: stripPadding_def endsWithPad_variedBlock)
  show ?thesis
    unfolding atob_def filter_variedBlock s Let_def those_variedBlock
    using l by (simp add: decodeSextets_variedBlock)
qed

lemma variedBytes_split:
  "concat (replicate 125 variedBytes)
     = variedBytes @ variedBytes @ variedBytes @ variedBytes @ variedBytes
       @ concat (replicate 120 variedBytes)"
proof -
  have "replicate 125 variedBytes = replicate 5 variedBytes @ replicate 120 variedBytes"
    by (simp flip: replicate_add)
  then show ?thesis by (simp add: eval_nat_numeral)
qed

lemma variedBytes_sample:
  "everyNth 5 (take 500 (concat (replicate 125 variedBytes)))
     = 40 # 240 # 200 # 160 # 130 # 80
       # everyNth 5 (take 470 (concat (replicate 120 variedBytes)))"
  unfolding variedBytes_split by (simp add: variedBytes_def)

lemma variedBytes_buckets:
  "5 \<le> card ((\<lambda>b. b div 10) ` set (everyNth 5 (take 500 (concat (replicate 125 variedBytes)))))"
proof -
  let ?rest = "everyNth 5 (take 470 (concat (replicate 120 variedBytes)))"
  have "{4, 8, 13, 16, 20} \<subseteq> (\<lambda>b. b div 10) ` set (40 # 240 # 200 # 160 # 130 # 80 # ?rest)"
    by simp
  then have "card {4, 8, 13, 16, 20::nat}
      \<le> card ((\<lambda>b. b div 10) ` set (40 # 240 # 200 # 160 # 130 # 80 # ?rest))"
    by (intro card_mono) simp_all
  then show ?thesis by (simp add: variedBytes_sample)
qed

lemma variedBytes_bright:
  "filter (\<lambda>b. b < 30) (everyNth 10 (concat (replicate n variedBytes))) = []"
proof -
  have "set (everyNth 10 (concat (replicate n variedBytes))) \<subseteq> set variedBytes"
    using everyNth_subset set_concat_replicate by (rule order_trans)
  then have "\<forall>b\<in>set (everyNth 10 (concat (replicate n variedBytes))). \<not> b < 30"
    by (auto simp: variedBytes_def)
  then show ?thesis by (simp add: filter_empty_conv)
qed

text \<open>
  C9.  The base64 payload of a buffer of \<open>n\<close> zero bytes decodes to that buffer, and
  when it has at least 1000 characters it is classified invalid; so is every payload of
  at least 1000 characters whose decoded sample (the bytes of its first 10000 characters)
  is a buffer of zeros.  A payload of at least 1000 characters whose decoded sample shows
  at least 5 distinct buckets \<open>floor(byte / 10)\<close> among every fifth of its first 500
  bytes, and fewer than 80% of bytes below 30 among every tenth of its bytes, is
  classified valid.
\<close>

theorem isInvalidImage_classification:
  "atob (base64Encode (replicate n 0)) = Some (replicate n 0)
   \<and> (1000 \<le> length (base64Encode (replicate n 0))
        \<longrightarrow> isInvalidImage (base64Encode (replicate n 0)))
   \<and> (1000 \<le> length black \<and> atob (take 10000 black) = Some zeros
        \<and> (\<forall>b\<in>set zeros. b = 0)
      \<longrightarrow> isInvalidImage black)
   \<and> (1000 \<le> length base64Data \<and> atob (take 10000 base64Data) = Some bytes
        \<and> 5 \<le> card ((\<lambda>b. b div 10) ` set (everyNth 5 (take 500 bytes)))
        \<and> 5 * length (filter (\<lambda>b. b < 30) (everyNth 10 bytes)) < 4 * length (everyNth 10 bytes)
      \<longrightarrow> \<not> isInvalidImage base64Data)"
  using atob_base64Encode_zeros black_buffer_invalid black_sample_invalid varied_sample_valid
  by blast

theorem isInvalidImage_classification_witness:
  "atob (base64Encode (replicate 750 0)) = Some (replicate 750 0)
   \<and> isInvalidImage (base64Encode (replicate 750 0))
   \<and> isInvalidImage (replicate 1000 (CHR ''A''))
   \<and> \<not> isInvalidImage (concat (replicate 125 variedBlock))"
proof -
  let ?black = "replicate 1000 (CHR ''A'')"
  let ?zeros = "replicate 750 (0::nat)"
  let ?text = "concat (replicate 125 variedBlock)"
  let ?bytes = "concat (replicate 125 variedBytes)"
  note w = isInvalidImage_classification [of 750 ?black ?zeros ?text ?bytes]
  have "base64Encode (replicate (3 * 250) 0 @ []) = replicate (4 * 250) (CHR ''A'') @ base64Encode []"
    by (rule base64Encode_zero_blocks)
  then have h1: "1000 \<le> length (base64Encode (replicate 750 0))"
    by simp
  have "atob (replicate 1000 (CHR ''A'') @ replicate 0 (CHR ''=''))
      = Some (replicate (1000 * 3 div 4) 0)"
    by (rule atob_padded_eq) simp_all
  then have h2: "1000 \<le> length ?black \<and> atob (take 10000 ?black) = Some ?zeros
      \<and> (\<forall>b\<in>set ?zeros. b = 0)"
    by simp
  have l: "length ?text = 1000" "length ?bytes = 750"
    by (simp_all add: length_concat_replicate variedBlock_def variedBytes_def)
  from l(2) have "?bytes \<noteq> []" by auto
  then have "everyNth 10 ?bytes \<noteq> []" by (rule everyNth_not_empty)
  then have p: "5 * length (filter (\<lambda>b. b < 30) (everyNth 10 ?bytes)) < 4 * length (everyNth 10 ?bytes)"
    by (simp add: variedBytes_bright)
  from l(1) have "take 10000 ?text = ?text" by simp
  with l(1) p have h3: "1000 \<le> length ?text \<and> atob (take 10000 ?text) = Some ?bytes
        \<and> 5 \<le> card ((\<lambda>b. b div 10) ` set (everyNth 5 (take 500 ?bytes)))
        \<and> 5 * length (filter (\<lambda>b. b < 30) (everyNth 10 ?bytes)) < 4 * length (everyNth 10 ?bytes)"
    by (simp only: atob_variedBlock variedBytes_buckets) simp
  from w have 0: "atob (base64Encode (replicate 750 0)) = Some (replicate 750 0)"
    by (rule conjunct1)
  from w have w1: "1000 \<le> length (base64Encode (replicate 750 0))
      \<longrightarrow> isInvalidImage (base64Encode (replicate 750 0))"
    by (rule conjunct2 [THEN conjunct1])
  from w have w2: "1000 \<le> length ?black \<and> atob (take 10000 ?black) = Some ?zeros
        \<and> (\<forall>b\<in>set ?zeros. b = 0) \<longrightarrow> isInvalidImage ?black"
    by (rule conjunct2 [THEN conjunct2, THEN conjunct1])
  from w have w3: "1000 \<le> length ?text \<and> atob (take 10000 ?text) = Some ?bytes
        \<and> 5 \<le> card ((\<lambda>b. b div 10) ` set (everyNth 5 (take 500 ?bytes)))
        \<and> 5 * length (filter (\<lambda>b. b < 30) (everyNth 10 ?bytes)) < 4 * length (everyNth 10 ?bytes)
      \<longrightarrow> \<not> isInvalidImage ?text"
    by (rule conjunct2 [THEN conjunct2, THEN conjunct2])
  from w1 h1 have 1: "isInvalidImage (base64Encode (replicate 750 0))" by (rule mp)
  from w2 h2 have 2: "isInvalidImage ?black" by (rule mp)
  from w3 h3 have 3: "\<not> isInvalidImage ?text" by (rule mp)
  from 0 1 2 3 show ?thesis by (intro conjI)
qed

subsection \<open>C10: a guess at the origin\<close>

lemma getTargetCoordinates_origin:
  "Option.bind p pred_lat = None \<or> Option.bind p pred_lon = None \<Longrightarrow>
   Option.bind latest sv_lat = None \<or> Option.bind latest sv_lon = None \<Longrightarrow>
   getTargetCoordinates p latest = (Fin 0, Fin 0)"
  by (auto simp: getTargetCoordinates_def split: option.splits)

text \<open>
  C10.  The claim says that a round of Auto Play whose prediction carries no latitude or
  longitude, with no street-view metadata captured, places and submits a guess at
  \<open>(0, 0)\<close>.  \<open>getTargetCoordinates\<close> does return \<open>(0, 0)\<close> for such a prediction,
  but the round never calls it: with the overlay's result panel in the document,
  \<open>updateResult\<close> throws on the prediction first, the \<open>catch\<close> of the round writes
  the error into the status line, and the round goes on to the transition with no guess
  placed or submitted.  Only when the backend's answer holds no prediction at all does
  the round place and submit the guess at \<open>(0, 0)\<close>.
\<close>

theorem blind_round_places_no_guess:
  "getTargetCoordinates (Some emptyPrediction) (latestStreetViewMetadata initialContent)
     = (Fin 0, Fin 0)
   \<and> actions (autoPlayGuess blindRound initialContent) = [SendMessage ''RUN_INFERENCE'']
   \<and> statusText (autoPlayGuess blindRound initialContent)
       = STATUS_ERROR @ typeErrorMessage blindRound
   \<and> playAutomaticRound 0 blindRound initialContent
       = (Resolved True,
          initialContent\<lparr>currentRound := 2, currentPrediction := Some emptyPrediction,
            statusText := STATUS_ERROR @ typeErrorMessage blindRound,
            actions := [SendMessage ''RUN_INFERENCE'', Click ''view-results'', Click ''next'']\<rparr>)
   \<and> actions (autoPlayGuess (blindRound\<lparr>predictionResult := Inr None\<rparr>) initialContent)
       = [SendMessage ''RUN_INFERENCE'', PlaceGuess (Fin 0) (Fin 0), SubmitGuess]"
proof -
  have 1: "getTargetCoordinates (Some emptyPrediction) (latestStreetViewMetadata initialContent)
     = (Fin 0, Fin 0)"
    by (rule getTargetCoordinates_origin) (simp_all add: emptyPrediction_def initialContent_def)
  have 2: "autoPlayGuess blindRound st
     = st\<lparr>currentPrediction := Some emptyPrediction,
          statusText := STATUS_ERROR @ typeErrorMessage blindRound,
          actions := actions st @ [SendMessage ''RUN_INFERENCE'']\<rparr>" for st
    by (simp add: autoPlayGuess_def updateResult_def blindRound_def emptyPrediction_def Let_def)
  have 3: "actions (autoPlayGuess blindRound initialContent) = [SendMessage ''RUN_INFERENCE'']"
    "statusText (autoPlayGuess blindRound initialContent)
       = STATUS_ERROR @ typeErrorMessage blindRound"
    by (simp_all add: 2 initialContent_def)
  have b: "stopped blindRound = False" "streetViewError blindRound = None"
    "transition blindRound = healthyPage"
    by (simp_all add: blindRound_def)
  have 4: "playAutomaticRound 0 blindRound initialContent
       = (Resolved True,
          initialContent\<lparr>currentRound := 2, currentPrediction := Some emptyPrediction,
            statusText := STATUS_ERROR @ typeErrorMessage blindRound,
            actions := [SendMessage ''RUN_INFERENCE'', Click ''view-results'', Click ''next'']\<rparr>)"
    by (simp add: playAutomaticRound_def Let_def b 2 ROUND_LIMIT_def
        handleResultTransition_healthyPage initialContent_def)
  have 5: "actions (autoPlayGuess (blindRound\<lparr>predictionResult := Inr None\<rparr>) initialContent)
       = [SendMessage ''RUN_INFERENCE'', PlaceGuess (Fin 0) (Fin 0), SubmitGuess]"
    by (simp add: autoPlayGuess_def updateResult_def getTargetCoordinates_def blindRound_def
        initialContent_def Let_def)
  from 1 3 4 5 show ?thesis by simp
qed

end
